theory Spec2Isabelle
  imports Complex_Main "HOL-Library.Sublist" "HOL-Library.AList"
begin

section \<open>Byte strings\<close>

text \<open>
  A Go string is a sequence of bytes; \<^typ>\<open>string\<close> is a list of \<^typ>\<open>char\<close>, one per
  byte. The predicates below read a byte through its code.
\<close>

definition code :: "char \<Rightarrow> nat" where
  "code c = of_char c"

definition isDigit :: "char \<Rightarrow> bool" where
  "isDigit c = (48 \<le> code c \<and> code c \<le> 57)"

definition isUpper :: "char \<Rightarrow> bool" where
  "isUpper c = (65 \<le> code c \<and> code c \<le> 90)"

definition isLower :: "char \<Rightarrow> bool" where
  "isLower c = (97 \<le> code c \<and> code c \<le> 122)"

text \<open>The character class \<^verbatim>\<open>a-zA-Z0-9\<close> of the pattern compiled in processCSV.\<close>

definition isAlnum :: "char \<Rightarrow> bool" where
  "isAlnum c = (isLower c \<or> isUpper c \<or> isDigit c)"

subsection \<open>The column name of a header token\<close>

text \<open>
  \<^verbatim>\<open>reg.ReplaceAllString(src, repl)\<close> for \<^verbatim>\<open>reg = [^a-zA-Z0-9]+\<close>: scanning from the
  left, each maximal run of characters outside the class is one match and is replaced by
  \<open>repl\<close>; the other characters are copied. The regexp engine reads runes, not bytes:
  every byte of a multi-byte rune and every invalid byte is at least \<^verbatim>\<open>0x80\<close>, such a
  rune is outside the class, so a run of the negated class is a run of bytes that are not
  ASCII letters or digits.
\<close>

function ReplaceAllString :: "string \<Rightarrow> string \<Rightarrow> string" where
  "ReplaceAllString [] repl = []"
| "ReplaceAllString (c # cs) repl =
     (if isAlnum c then c # ReplaceAllString cs repl
      else repl @ ReplaceAllString (dropWhile (\<lambda>x. \<not> isAlnum x) cs) repl)"
  by pat_completeness auto
termination
  by (relation "measure (\<lambda>(s, r). length s)")
     (auto simp: less_Suc_eq_le length_dropWhile_le)

text \<open>
  \<^verbatim>\<open>strings.ToLower\<close> on a string of ASCII bytes (its fast path): each of
  \<^verbatim>\<open>'A'..'Z'\<close> is moved by \<^verbatim>\<open>'a' - 'A'\<close>, every other byte is kept. The argument it
  receives in processCSV is ASCII, see \<open>ReplaceAllString_ascii\<close>.
\<close>

definition toLowerByte :: "char \<Rightarrow> char" where
  "toLowerByte c = (if isUpper c then char_of (code c + 32) else c)"

definition ToLower :: "string \<Rightarrow> string" where
  "ToLower s = map toLowerByte s"

text \<open>
  Lines 161 and 162 of main.go:
  \<^verbatim>\<open>columnName := reg.ReplaceAllString(csvHeader[i], "")\<close> and
  \<^verbatim>\<open>strings.ToLower(columnName)\<close>.
\<close>

definition columnName :: "string \<Rightarrow> string" where
  "columnName h = ToLower (ReplaceAllString h [])"

definition isLowerAlnum :: "char \<Rightarrow> bool" where
  "isLowerAlnum c = (isLower c \<or> isDigit c)"

subsection \<open>strings.Split and trySplit\<close>

text \<open>
  \<^verbatim>\<open>strings.Index\<close> followed by the two slices that \<^verbatim>\<open>strings.Split\<close> takes around
  the match: \<open>cutAt sep s\<close> is \<open>Some (s[:m], s[m+len(sep):])\<close> for the first index \<open>m\<close>
  at which \<open>sep\<close> occurs in \<open>s\<close>, and \<open>None\<close> when it does not occur.
\<close>

fun cutAt :: "string \<Rightarrow> string \<Rightarrow> (string \<times> string) option" where
  "cutAt sep [] = (if sep = [] then Some ([], []) else None)"
| "cutAt sep (c # cs) =
     (if prefix sep (c # cs) then Some ([], drop (length sep) (c # cs))
      else (case cutAt sep cs of
              None \<Rightarrow> None
            | Some (a, b) \<Rightarrow> Some (c # a, b)))"

lemma cutAt_length:
  "cutAt sep s = Some (a, b) \<Longrightarrow> length a + length sep + length b = length s"
proof (induction s arbitrary: a b)
  case Nil
  then show ?case by (simp split: if_splits)
next
  case (Cons c cs)
  show ?case
  proof (cases "prefix sep (c # cs)")
    case True
    then have "length sep \<le> length (c # cs)"
      by (rule prefix_length_le)
    with True Cons.prems show ?thesis by auto
  next
    case False
    with Cons.prems obtain a' where "cutAt sep cs = Some (a', b)" and "a = c # a'"
      by (auto split: option.splits)
    with Cons.IH [of a' b] show ?thesis by simp
  qed
qed

subsection \<open>UTF-8\<close>

text \<open>A rune is a code point; \<^verbatim>\<open>utf8.RuneError\<close> is U+FFFD.\<close>

type_synonym rune = nat

definition RuneError :: rune where
  "RuneError = 65533"

text \<open>
  The table \<^verbatim>\<open>first\<close> of package unicode/utf8, read as the length of the sequence a
  leading byte announces (0 for a byte that cannot lead), and the range
  \<^verbatim>\<open>acceptRanges\<close> allows for the second byte.
\<close>

definition leadSize :: "nat \<Rightarrow> nat" where
  "leadSize s0 =
     (if s0 < 128 then 1
      else if s0 < 194 then 0
      else if s0 < 224 then 2
      else if s0 < 240 then 3
      else if s0 < 245 then 4
      else 0)"

definition acceptLo :: "nat \<Rightarrow> nat" where
  "acceptLo s0 = (if s0 = 224 then 160 else if s0 = 240 then 144 else 128)"

definition acceptHi :: "nat \<Rightarrow> nat" where
  "acceptHi s0 = (if s0 = 237 then 159 else if s0 = 244 then 143 else 191)"

text \<open>\<^verbatim>\<open>utf8.DecodeRuneInString\<close>: the first rune of the string and its width in bytes.\<close>

fun DecodeRuneInString :: "string \<Rightarrow> rune \<times> nat" where
  "DecodeRuneInString [] = (RuneError, 0)"
| "DecodeRuneInString (c0 # rest) =
     (let s0 = code c0; sz = leadSize s0 in
      if s0 < 128 then (s0, 1)
      else if sz = 0 then (RuneError, 1)
      else if length (c0 # rest) < sz then (RuneError, 1)
      else
        let s1 = code (rest ! 0) in
        if s1 < acceptLo s0 \<or> acceptHi s0 < s1 then (RuneError, 1)
        else if sz \<le> 2 then ((s0 mod 32) * 64 + s1 mod 64, 2)
        else
          let s2 = code (rest ! 1) in
          if s2 < 128 \<or> 191 < s2 then (RuneError, 1)
          else if sz \<le> 3 then ((s0 mod 16) * 4096 + (s1 mod 64) * 64 + s2 mod 64, 3)
          else
            let s3 = code (rest ! 2) in
            if s3 < 128 \<or> 191 < s3 then (RuneError, 1)
            else ((s0 mod 8) * 262144 + (s1 mod 64) * 4096 + (s2 mod 64) * 64
                    + s3 mod 64, 4))"

text \<open>
  The conversion \<^verbatim>\<open>string(r)\<close> of a rune: its UTF-8 encoding, and the encoding of
  U+FFFD for a surrogate or a value beyond U+10FFFF.
\<close>

definition byte :: "nat \<Rightarrow> char" where
  "byte n = char_of n"

definition string_of_rune :: "rune \<Rightarrow> string" where
  "string_of_rune r =
     (if r < 128 then [byte r]
      else if r < 2048 then [byte (192 + r div 64), byte (128 + r mod 64)]
      else if (55296 \<le> r \<and> r \<le> 57343) \<or> 1114111 < r then [byte 239, byte 191, byte 189]
      else if r < 65536 then
        [byte (224 + r div 4096), byte (128 + (r div 64) mod 64), byte (128 + r mod 64)]
      else
        [byte (240 + r div 262144), byte (128 + (r div 4096) mod 64),
         byte (128 + (r div 64) mod 64), byte (128 + r mod 64)])"

lemma DecodeRuneInString_width:
  "s \<noteq> [] \<Longrightarrow> 0 < snd (DecodeRuneInString s)"
  by (cases s) (simp_all add: Let_def)

text \<open>
  \<^verbatim>\<open>explode\<close> of package strings, the case of an empty separator: the string cut into
  its UTF-8 sequences.
\<close>

function explode_runes :: "string \<Rightarrow> string list" where
  "explode_runes s =
     (if s = [] then []
      else let size = snd (DecodeRuneInString s) in take size s # explode_runes (drop size s))"
  by pat_completeness auto
termination
proof (relation "measure length")
  show "wf (measure length)" by simp
next
  fix s :: string and x
  assume "s \<noteq> []" and "x = snd (DecodeRuneInString s)"
  then have "0 < x" and "0 < length s"
    by (simp_all add: DecodeRuneInString_width)
  then show "(drop x s, s) \<in> measure length"
    by simp
qed

text \<open>
  \<^verbatim>\<open>strings.Split(s, sep)\<close>: the pieces of \<open>s\<close> between the occurrences of \<open>sep\<close>,
  found from the left and not overlapping.
\<close>

function Split :: "string \<Rightarrow> string \<Rightarrow> string list" where
  "Split s sep =
     (if sep = [] then explode_runes s
      else (case cutAt sep s of
              None \<Rightarrow> [s]
            | Some (a, b) \<Rightarrow> a # Split b sep))"
  by pat_completeness auto
termination
proof (relation "measure (\<lambda>(s, sep). length s)")
  show "wf (measure (\<lambda>(s, sep). length s))" by simp
next
  fix s sep :: string and x2 x y
  assume "sep \<noteq> []" and "cutAt sep s = Some x2" and "(x, y) = x2"
  then have "length x + length sep + length y = length s"
    by (simp add: cutAt_length)
  with \<open>sep \<noteq> []\<close> have "length y < length s"
    by (cases sep) simp_all
  then show "((y, sep), s, sep) \<in> measure (\<lambda>(s, sep). length s)"
    by simp
qed

text \<open>
  trySplit, lines 39 to 46: the separators are tried in the order given and the first
  split whose length is not 1 is returned; the string alone otherwise.
\<close>

fun trySplit :: "string \<Rightarrow> string list \<Rightarrow> string list" where
  "trySplit str [] = [str]"
| "trySplit str (sep # seps) =
     (let s = Split str sep in if length s \<noteq> 1 then s else trySplit str seps)"

section \<open>Configuration\<close>

text \<open>
  The values the flag set delivers (command line or environment) and the package
  variables parseEnvironment leaves behind. A nil slice is the empty list.
\<close>

record flags =
  flag_file :: string
  flag_delimiter :: string
  flag_field_count :: int
  flag_has_header :: bool
  flag_header :: string
  flag_indicies :: string

record config =
  csvFile :: string
  csvDelimiter :: rune
  csvFieldCount :: int
  csvHasHeader :: bool
  csvHeader :: "string list"
  csvIndicies :: "string list"

text \<open>The errors the csv reader returns.\<close>

datatype csv_error = EOF | ErrFieldCount | ErrInvalidDelim | ParseError string

text \<open>
  Every way the start-up ends the process: the \<^verbatim>\<open>log.Fatal\<close> calls of
  parseEnvironment and processCSV, and the run-time panic of an index out of range
  (\<open>IndexOutOfRange i n\<close>: index \<open>i\<close> with length \<open>n\<close>).
\<close>

datatype fatal =
    NoCSVFile
  | InvalidDelimiter string
  | CouldNotOpenCSV string
  | CouldNotReadHeader csv_error
  | CouldNotCreateTable string
  | CouldNotCreateIndex string string
  | ReadFailed csv_error
  | CouldNotImport string string
  | IndexOutOfRange nat nat

definition parseEnvironment :: "flags \<Rightarrow> fatal + config" where
  "parseEnvironment fl =
     (if flag_file fl = [] then Inl NoCSVFile
      else
        let delim = fst (DecodeRuneInString (flag_delimiter fl)) in
        if delim = RuneError then Inl (InvalidDelimiter (flag_delimiter fl))
        else Inr \<lparr>
          csvFile = flag_file fl,
          csvDelimiter = delim,
          csvFieldCount = flag_field_count fl,
          csvHasHeader = flag_has_header fl,
          csvHeader =
            (if flag_header fl \<noteq> []
             then trySplit (flag_header fl) [string_of_rune delim, '','']
             else []),
          csvIndicies =
            (if flag_indicies fl \<noteq> []
             then trySplit (flag_indicies fl) [string_of_rune delim, '','']
             else []) \<rparr>)"

section \<open>The csv reader\<close>

text \<open>
  \<^verbatim>\<open>csv.NewReader\<close> with \<^verbatim>\<open>Comma = csvDelimiter\<close> and \<^verbatim>\<open>LazyQuotes = true\<close>. How the
  bytes of the file are cut into records is the library's business: \<open>pending\<close> is the
  sequence of records the parser finds in the file, \<open>Inr\<close> the cells of a record and
  \<open>Inl\<close> the message of a record it cannot parse. What \<^verbatim>\<open>Read\<close> does with a record is
  modelled: processCSV leaves \<^verbatim>\<open>FieldsPerRecord\<close> at 0, so the first record read sets
  it, and a later record with another number of fields is returned with
  \<^verbatim>\<open>ErrFieldCount\<close>. A delimiter the reader does not accept makes every \<^verbatim>\<open>Read\<close> fail.
\<close>

record Reader =
  Comma :: rune
  FieldsPerRecord :: int
  pending :: "(string + string list) list"

definition ValidRune :: "rune \<Rightarrow> bool" where
  "ValidRune r = (r < 55296 \<or> (57343 < r \<and> r \<le> 1114111))"

definition validDelim :: "rune \<Rightarrow> bool" where
  "validDelim r = (r \<noteq> 0 \<and> r \<noteq> 34 \<and> r \<noteq> 13 \<and> r \<noteq> 10 \<and> ValidRune r \<and> r \<noteq> RuneError)"

definition Read :: "Reader \<Rightarrow> (csv_error + string list) \<times> Reader" where
  "Read r =
     (if \<not> validDelim (Comma r) then (Inl ErrInvalidDelim, r)
      else (case pending r of
              [] \<Rightarrow> (Inl EOF, r)
            | item # rest \<Rightarrow>
                (case item of
                   Inl msg \<Rightarrow> (Inl (ParseError msg), r\<lparr>pending := rest\<rparr>)
                 | Inr cells \<Rightarrow>
                     if 0 < FieldsPerRecord r then
                       (if int (length cells) \<noteq> FieldsPerRecord r
                        then (Inl ErrFieldCount, r\<lparr>pending := rest\<rparr>)
                        else (Inr cells, r\<lparr>pending := rest\<rparr>))
                     else if FieldsPerRecord r = 0 then
                       (Inr cells, r\<lparr>pending := rest, FieldsPerRecord := int (length cells)\<rparr>)
                     else (Inr cells, r\<lparr>pending := rest\<rparr>))))"

lemma Read_consumes:
  "Read r = (Inr cells, r') \<Longrightarrow> length (pending r') < length (pending r)"
  by (auto simp: Read_def split: if_splits list.splits sum.splits)

section \<open>The store\<close>

text \<open>
  The database handle is used through two calls. \<^verbatim>\<open>db.Exec(query, args...)\<close> returns an
  error or changes the database; \<^verbatim>\<open>db.Query(query, args...)\<close> returns an error or a
  cursor: the column names, the outcome of each \<^verbatim>\<open>rows.Next\<close> and \<^verbatim>\<open>rows.Scan\<close> in turn
  (the values of a row as the driver holds them, or the message of a failure), and the
  error \<^verbatim>\<open>rows.Err\<close> reports at the end. The engine behind the handle is a parameter of
  the program's functions.
\<close>

type_synonym cursor = "string list \<times> (string + string list) list \<times> string option"

record 'db store =
  Exec :: "'db \<Rightarrow> string \<Rightarrow> string list \<Rightarrow> string + 'db"
  Query :: "'db \<Rightarrow> string \<Rightarrow> string list \<Rightarrow> string + cursor"

section \<open>processCSV\<close>

text \<open>Lines 133 to 149: the header line of the file, read when the file has one.\<close>

definition readHeader :: "config \<Rightarrow> Reader \<Rightarrow> fatal + (config \<times> Reader)" where
  "readHeader cfg reader =
     (if csvHasHeader cfg then
        (case Read reader of
           (Inl err, _) \<Rightarrow> Inl (CouldNotReadHeader err)
         | (Inr line, reader') \<Rightarrow>
             if length (csvHeader cfg) = 0 then Inr (cfg\<lparr>csvHeader := line\<rparr>, reader')
             else Inr (cfg, reader'))
      else Inr (cfg, reader))"

text \<open>Lines 152 to 155.\<close>

definition resolveFieldCount :: "config \<Rightarrow> config" where
  "resolveFieldCount cfg =
     (if csvFieldCount cfg = 0 then cfg\<lparr>csvFieldCount := int (length (csvHeader cfg))\<rparr>
      else cfg)"

text \<open>
  Lines 159 to 168, the loop that builds the CREATE TABLE statement. \<^verbatim>\<open>csvHeader[i]\<close>
  panics when \<open>i\<close> is not below the length of the header.
\<close>

function createTableLoop :: "string list \<Rightarrow> int \<Rightarrow> nat \<Rightarrow> string \<Rightarrow> fatal + string" where
  "createTableLoop hdr fc i query =
     (if int i < fc then
        (if i < length hdr then
           createTableLoop hdr fc (Suc i)
             (query @ columnName (hdr ! i)
                @ (if int i = fc - 1 then '' text);'' else '' text, ''))
         else Inl (IndexOutOfRange i (length hdr)))
      else Inr query)"
  by pat_completeness auto
termination
  by (relation "measure (\<lambda>(hdr, fc, i, query). nat (fc - int i))") auto

definition createTableQuery :: "string list \<Rightarrow> int \<Rightarrow> fatal + string" where
  "createTableQuery hdr fc = createTableLoop hdr fc 0 ''create table csv (''"

text \<open>Lines 178 to 185.\<close>

fun createIndices :: "('db, 'z) store_scheme \<Rightarrow> 'db \<Rightarrow> string list \<Rightarrow> fatal + 'db" where
  "createIndices S db [] = Inr db"
| "createIndices S db (index # rest) =
     (case Exec S db (''create index '' @ index @ ''_idx on csv ('' @ index @ '')'') [] of
        Inl err \<Rightarrow> Inl (CouldNotCreateIndex index err)
      | Inr db' \<Rightarrow> createIndices S db' rest)"

text \<open>
  Lines 201 to 210, the loop that builds the INSERT statement and its arguments from one
  line. \<^verbatim>\<open>line[i]\<close> panics when \<open>i\<close> is not below the length of the line.
\<close>

function insertLoop ::
  "string list \<Rightarrow> int \<Rightarrow> nat \<Rightarrow> string \<Rightarrow> string list \<Rightarrow> fatal + (string \<times> string list)" where
  "insertLoop line fc i query args =
     (if int i < fc then
        (if i < length line then
           insertLoop line fc (Suc i)
             (query @ (if int i = fc - 1 then ''?);'' else ''?,'')) (args @ [line ! i])
         else Inl (IndexOutOfRange i (length line)))
      else Inr (query, args))"
  by pat_completeness auto
termination
  by (relation "measure (\<lambda>(line, fc, i, query, args). nat (fc - int i))") auto

definition insertQuery :: "string list \<Rightarrow> int \<Rightarrow> fatal + (string \<times> string list)" where
  "insertQuery line fc = insertLoop line fc 0 ''insert into csv values ('' []"

text \<open>Lines 190 to 219, the import loop; \<open>rows\<close> counts the rows inserted.\<close>

function importLoop ::
  "('db, 'z) store_scheme \<Rightarrow> int \<Rightarrow> Reader \<Rightarrow> 'db \<Rightarrow> nat \<Rightarrow> fatal + ('db \<times> nat)" where
  "importLoop S fc reader db rows =
     (case Read reader of
        (Inl err, reader') \<Rightarrow> if err = EOF then Inr (db, rows) else Inl (ReadFailed err)
      | (Inr line, reader') \<Rightarrow>
          (case insertQuery line fc of
             Inl panic \<Rightarrow> Inl panic
           | Inr (query, args) \<Rightarrow>
               (case Exec S db query args of
                  Inl err \<Rightarrow> Inl (CouldNotImport err query)
                | Inr db' \<Rightarrow> importLoop S fc reader' db' (Suc rows))))"
  by pat_completeness auto
termination
  by (relation "measure (\<lambda>(S, fc, reader, db, rows). length (pending reader))")
     (auto dest: Read_consumes [OF sym])

text \<open>
  processCSV, lines 107 to 222. \<open>file\<close> is \<open>None\<close> when the file cannot be opened, and
  the records of the file otherwise; \<open>db\<close> is the database \<^verbatim>\<open>sql.Open\<close> hands out. The
  result is the configuration as resolved, the database and the number of rows.
\<close>

definition processCSV ::
  "('db, 'z) store_scheme \<Rightarrow> 'db \<Rightarrow> config \<Rightarrow> (string + string list) list option
     \<Rightarrow> fatal + (config \<times> 'db \<times> nat)" where
  "processCSV S db cfg file =
     (case file of
        None \<Rightarrow> Inl (CouldNotOpenCSV (csvFile cfg))
      | Some records \<Rightarrow>
          (case readHeader cfg \<lparr>Comma = csvDelimiter cfg, FieldsPerRecord = 0,
                                pending = records\<rparr> of
             Inl f \<Rightarrow> Inl f
           | Inr (cfg1, reader) \<Rightarrow>
               let cfg2 = resolveFieldCount cfg1 in
               (case createTableQuery (csvHeader cfg2) (csvFieldCount cfg2) of
                  Inl panic \<Rightarrow> Inl panic
                | Inr query \<Rightarrow>
                    (case Exec S db query [] of
                       Inl err \<Rightarrow> Inl (CouldNotCreateTable err)
                     | Inr db1 \<Rightarrow>
                         (case createIndices S db1 (csvIndicies cfg2) of
                            Inl f \<Rightarrow> Inl f
                          | Inr db2 \<Rightarrow>
                              (case importLoop S (csvFieldCount cfg2) reader db2 0 of
                                 Inl f \<Rightarrow> Inl f
                               | Inr (db3, rows) \<Rightarrow> Inr (cfg2, db3, rows)))))))"

section \<open>handleRequest\<close>

text \<open>
  Lines 227 to 235. \<open>params\<close> is the map \<^verbatim>\<open>c.Request.URL.Query()\<close>, a key with its
  values, listed in the order the \<^verbatim>\<open>range\<close> loop visits the keys.
\<close>

fun valuesLoop :: "string \<Rightarrow> string list \<Rightarrow> string \<times> string list \<Rightarrow> string \<times> string list" where
  "valuesLoop key [] (query, args) = (query, args)"
| "valuesLoop key (v # vs) (query, args) =
     valuesLoop key vs (query @ key @ ''=? AND '', args @ [v])"

fun paramsLoop :: "(string \<times> string list) list \<Rightarrow> string \<times> string list \<Rightarrow> string \<times> string list" where
  "paramsLoop [] qa = qa"
| "paramsLoop ((key, vs) # rest) qa = paramsLoop rest (valuesLoop key vs qa)"

definition buildQuery :: "(string \<times> string list) list \<Rightarrow> string \<times> string list" where
  "buildQuery params =
     (let (query, args) = paramsLoop params (''SELECT * FROM csv WHERE '', [])
      in (take (length query - 5) query, args))"

text \<open>\<^verbatim>\<open>strings.Join\<close>.\<close>

fun Join :: "string list \<Rightarrow> string \<Rightarrow> string" where
  "Join [] sep = []"
| "Join [x] sep = x"
| "Join (x # y # ys) sep = x @ sep @ Join (y # ys) sep"

text \<open>
  \<^verbatim>\<open>strings.Replace(s, old, new, -1)\<close>: every occurrence of \<open>old\<close>, found from the left
  and not overlapping, is replaced by \<open>new\<close>; an empty \<open>old\<close> matches before each rune
  and at the end.
\<close>

function Replace :: "string \<Rightarrow> string \<Rightarrow> string \<Rightarrow> string" where
  "Replace s old new =
     (if old = new then s
      else if old = [] then new @ concat (map (\<lambda>r. r @ new) (explode_runes s))
      else (case cutAt old s of
              None \<Rightarrow> s
            | Some (a, b) \<Rightarrow> a @ new @ Replace b old new))"
  by pat_completeness auto
termination
proof (relation "measure (\<lambda>(s, old, new). length s)")
  show "wf (measure (\<lambda>(s, old, new). length s))" by simp
next
  fix s old new :: string and x2 x y
  assume "old \<noteq> []" and "cutAt old s = Some x2" and "(x, y) = x2"
  then have "length x + length old + length y = length s"
    by (simp add: cutAt_length)
  with \<open>old \<noteq> []\<close> have "length y < length s"
    by (cases old) simp_all
  then show "((y, old, new), s, old, new) \<in> measure (\<lambda>(s, old, new). length s)"
    by simp
qed

text \<open>
  A float64 as a value: the real number it holds, an infinity or a NaN.
\<close>

datatype float64 = Finite real | PosInf | NegInf | NaN

text \<open>
  A value of a record of the response: a JSON number or a JSON string. The number parser
  is a parameter: \<open>parseFloat v\<close> is \<open>Some number\<close> where
  \<^verbatim>\<open>strconv.ParseFloat(v, 64)\<close> returns \<open>number\<close> and a nil error.
\<close>

datatype json_value = JNumber float64 | JString string

text \<open>Lines 270 to 275.\<close>

definition convertValue :: "(string \<Rightarrow> float64 option) \<Rightarrow> string \<Rightarrow> json_value" where
  "convertValue parseFloat v =
     (let value = Replace v '','' [] in
      case parseFloat value of
        Some number \<Rightarrow> JNumber number
      | None \<Rightarrow> JString v)"

text \<open>
  Lines 268 to 276: the map from the column names to the values of one row, kept as an
  association list with one entry for a key; \<^verbatim>\<open>m[column] = v\<close> is \<open>AList.update\<close>.
  The order of the entries carries no meaning.
\<close>

type_synonym json_object = "(string \<times> json_value) list"

definition convertRow ::
  "(string \<Rightarrow> float64 option) \<Rightarrow> string list \<Rightarrow> string list \<Rightarrow> json_object" where
  "convertRow parseFloat columns vals =
     fold (\<lambda>i m. AList.update (columns ! i) (convertValue parseFloat (vals ! i)) m)
       [0..<length columns] []"

text \<open>
  \<^verbatim>\<open>rows.Scan\<close> into one string per column: the failure of the cursor, or of a row that
  does not hold one value per destination (its message without the two counts).
\<close>

definition Scan :: "string list \<Rightarrow> string + string list \<Rightarrow> string + string list" where
  "Scan columns raw =
     (case raw of
        Inl err \<Rightarrow> Inl err
      | Inr vals \<Rightarrow>
          if length vals \<noteq> length columns
          then Inl ''sql: wrong number of destination arguments in Scan''
          else Inr vals)"

text \<open>Lines 249 to 281.\<close>

fun rowsLoop ::
  "(string \<Rightarrow> float64 option) \<Rightarrow> string list \<Rightarrow> (string + string list) list
     \<Rightarrow> json_object list \<Rightarrow> string + json_object list" where
  "rowsLoop parseFloat columns [] data = Inr data"
| "rowsLoop parseFloat columns (raw # rest) data =
     (case Scan columns raw of
        Inl err \<Rightarrow> Inl err
      | Inr vals \<Rightarrow> rowsLoop parseFloat columns rest (data @ [convertRow parseFloat columns vals]))"

datatype body = ErrorString string | Records "json_object list"

text \<open>
  What the handler leaves to the client: a status with a JSON body, or nothing of its own
  when the encoding of the body fails.
\<close>

datatype response = Response nat body | EncodingFailed

text \<open>
  \<^verbatim>\<open>c.IndentedJSON(200, data)\<close>, line 291, encodes the records with package
  encoding/json, which encodes every string and every finite number and refuses a NaN and
  an infinity. When it refuses, no array is written: the handler has no answer of its
  own, and what the client then sees is the framework's (the recovery of a panic in the
  versions where the rendering panics).
\<close>

definition encodable :: "json_value \<Rightarrow> bool" where
  "encodable v =
     (case v of
        JNumber (Finite x) \<Rightarrow> True
      | JNumber _ \<Rightarrow> False
      | JString s \<Rightarrow> True)"

definition IndentedJSON :: "json_object list \<Rightarrow> response" where
  "IndentedJSON data =
     (if list_all (\<lambda>m. list_all (\<lambda>(column, v). encodable v) m) data
      then Response 200 (Records data)
      else EncodingFailed)"

text \<open>handleRequest, lines 224 to 293: the status and the JSON body written.\<close>

definition handleRequest ::
  "('db, 'z) store_scheme \<Rightarrow> (string \<Rightarrow> float64 option) \<Rightarrow> 'db \<Rightarrow> (string \<times> string list) list
     \<Rightarrow> response" where
  "handleRequest S parseFloat db params =
     (let (query, args) = buildQuery params in
      case Query S db query args of
        Inl err \<Rightarrow> Response 400 (ErrorString err)
      | Inr (columns, rows, rowsErr) \<Rightarrow>
          (case rowsLoop parseFloat columns rows [] of
             Inl err \<Rightarrow> Response 500 (ErrorString err)
           | Inr data \<Rightarrow>
               (case rowsErr of
                  Some err \<Rightarrow> Response 500 (ErrorString err)
                | None \<Rightarrow> IndentedJSON data)))"

subsection \<open>Numbers\<close>

text \<open>
  \<^verbatim>\<open>strconv.ParseFloat(s, 64)\<close> on the strings it reads as plain decimal numbers: an
  optional sign, decimal digits with at most one point and at least one digit, and an
  optional exponent (\<^verbatim>\<open>e\<close> or \<^verbatim>\<open>E\<close>, an optional sign, at least one digit; as in
  the library, exponent digits stop counting once the exponent has reached 10000). The
  result is the number the string denotes, which the library rounds to the nearest
  float64 and refuses, with a range error, from \<open>2^1024 - 2^970\<close> on. The other strings
  the library accepts (hexadecimal mantissas, underscores between digits, and the words
  of \<open>special\<close> below) are not in this fragment; nothing is stated about them through it.
\<close>

definition digitsValue :: "string \<Rightarrow> nat" where
  "digitsValue ds = foldl (\<lambda>n c. 10 * n + (code c - 48)) 0 ds"

definition exponentValue :: "string \<Rightarrow> nat" where
  "exponentValue ds = foldl (\<lambda>e c. if e < 10000 then e * 10 + (code c - 48) else e) 0 ds"

definition readSign :: "string \<Rightarrow> bool \<times> string" where
  "readSign s =
     (case s of
        [] \<Rightarrow> (False, [])
      | c # cs \<Rightarrow> if c = CHR ''+'' then (False, cs) else if c = CHR ''-'' then (True, cs)
                 else (False, s))"

definition scale10 :: "real \<Rightarrow> int \<Rightarrow> real" where
  "scale10 m e = (if 0 \<le> e then m * 10 ^ nat e else m / 10 ^ nat (- e))"

definition ParseFloat_decimal :: "string \<Rightarrow> float64 option" where
  "ParseFloat_decimal s =
     (let (neg, s1) = readSign s;
          whole = takeWhile isDigit s1; s2 = dropWhile isDigit s1;
          sawdot = (s2 \<noteq> [] \<and> hd s2 = CHR ''.'');
          frac = (if sawdot then takeWhile isDigit (tl s2) else []);
          s3 = (if sawdot then dropWhile isDigit (tl s2) else s2)
      in
      if whole = [] \<and> frac = [] then None
      else
        let mantissa = real (digitsValue (whole @ frac));
            dp = - int (length frac);
            expo =
              (if s3 = [] then Some 0
               else if hd s3 = CHR ''e'' \<or> hd s3 = CHR ''E'' then
                 (let (eneg, s4) = readSign (tl s3) in
                  if s4 = [] \<or> \<not> list_all isDigit s4 then None
                  else Some (if eneg then - int (exponentValue s4) else int (exponentValue s4)))
               else None)
        in
        (case expo of
           None \<Rightarrow> None
         | Some e \<Rightarrow>
             let v = scale10 mantissa (dp + e) in
             if 2 ^ 1024 - 2 ^ 970 \<le> v then None
             else Some (Finite (if neg then - v else v))))"

text \<open>
  \<^verbatim>\<open>special\<close> of package strconv, for a string ParseFloat reads to its end: the words
  \<^verbatim>\<open>inf\<close> and \<^verbatim>\<open>infinity\<close>, with or without a sign, and the word \<^verbatim>\<open>nan\<close> without one,
  in any mix of upper and lower case.
\<close>

definition special :: "string \<Rightarrow> float64 option" where
  "special s =
     (case s of
        [] \<Rightarrow> None
      | c # cs \<Rightarrow>
          if c = CHR ''+'' \<or> c = CHR ''-'' then
            (if ToLower cs = ''inf'' \<or> ToLower cs = ''infinity''
             then Some (if c = CHR ''-'' then NegInf else PosInf)
             else None)
          else if ToLower s = ''inf'' \<or> ToLower s = ''infinity'' then Some PosInf
          else if ToLower s = ''nan'' then Some NaN
          else None)"

text \<open>
  ParseFloat on the words of \<open>special\<close> and on the plain decimal numbers: the library
  tries the words first.
\<close>

definition ParseFloat_fragment :: "string \<Rightarrow> float64 option" where
  "ParseFloat_fragment s =
     (case special s of
        Some f \<Rightarrow> Some f
      | None \<Rightarrow> ParseFloat_decimal s)"

section \<open>A fragment of the embedded engine\<close>

text \<open>
  The engine behind the handle is SQLite, a library. The definitions of this section say
  what it answers to some of the statements the program issues, written after the
  engine's behaviour: one table \<^verbatim>\<open>csv\<close> of text columns without an index, rows of
  strings kept in the order of their insertion and compared byte for byte, names matched
  without regard to ASCII case. The statements of the fragment are
  \<^item> \<^verbatim>\<open>create table csv (c1 text, ..., cn text);\<close> with at most 2000 columns,
  \<^item> \<^verbatim>\<open>insert into csv values (?,...,?);\<close> with one argument for each column,
  \<^item> \<^verbatim>\<open>SELECT * FROM csv\<close>, followed by nothing, by an alias for the table, or by
    \<^verbatim>\<open>WHERE k1=? AND ... AND kn=?\<close> with fewer than 1000 clauses,
  where each name is a plain name, or, for a column or a key, one of the words \<^verbatim>\<open>cast\<close>
  and \<^verbatim>\<open>raise\<close>. For a statement outside the fragment the answer is \<open>None\<close>: nothing is
  said about it.
\<close>

record memdb =
  csv_table :: "(string list \<times> string list list) option"

definition empty_db :: memdb where
  "empty_db = \<lparr>csv_table = None\<rparr>"

definition stripPrefix :: "string \<Rightarrow> string \<Rightarrow> string option" where
  "stripPrefix p s = (if prefix p s then Some (drop (length p) s) else None)"

definition stripSuffix :: "string \<Rightarrow> string \<Rightarrow> string option" where
  "stripSuffix p s = (if suffix p s then Some (take (length s - length p) s) else None)"

text \<open>
  The words with a meaning of their own in the engine's grammar: its keywords, the names
  of the row identifier and the two truth values.
\<close>

definition sql_words :: "string list" where
  "sql_words =
     [''abort'', ''action'', ''add'', ''after'', ''all'', ''alter'', ''always'', ''analyze'',
      ''and'', ''as'', ''asc'', ''attach'', ''autoincrement'', ''before'', ''begin'',
      ''between'', ''by'', ''cascade'', ''case'', ''cast'', ''check'', ''collate'', ''column'',
      ''commit'', ''conflict'', ''constraint'', ''create'', ''cross'', ''current'',
      ''current_date'', ''current_time'', ''current_timestamp'', ''database'', ''default'',
      ''deferrable'', ''deferred'', ''delete'', ''desc'', ''detach'', ''distinct'', ''do'',
      ''drop'', ''each'', ''else'', ''end'', ''escape'', ''except'', ''exclude'',
      ''exclusive'', ''exists'', ''explain'', ''fail'', ''filter'', ''first'', ''following'',
      ''for'', ''foreign'', ''from'', ''full'', ''generated'', ''glob'', ''group'', ''groups'',
      ''having'', ''if'', ''ignore'', ''immediate'', ''in'', ''index'', ''indexed'',
      ''initially'', ''inner'', ''insert'', ''instead'', ''intersect'', ''into'', ''is'',
      ''isnull'', ''join'', ''key'', ''last'', ''left'', ''like'', ''limit'', ''match'',
      ''materialized'', ''natural'', ''no'', ''not'', ''nothing'', ''notnull'', ''null'',
      ''nulls'', ''of'', ''offset'', ''on'', ''or'', ''order'', ''others'', ''outer'', ''over'',
      ''partition'', ''plan'', ''pragma'', ''preceding'', ''primary'', ''query'', ''raise'',
      ''range'', ''recursive'', ''references'', ''regexp'', ''reindex'', ''release'',
      ''rename'', ''replace'', ''restrict'', ''returning'', ''right'', ''rollback'', ''row'',
      ''rows'', ''savepoint'', ''select'', ''set'', ''table'', ''temp'', ''temporary'',
      ''then'', ''ties'', ''to'', ''transaction'', ''trigger'', ''unbounded'', ''union'',
      ''unique'', ''update'', ''using'', ''vacuum'', ''values'', ''view'', ''virtual'',
      ''when'', ''where'', ''window'', ''with'', ''without'',
      ''rowid'', ''oid'', ''_rowid_'', ''true'', ''false'']"

text \<open>
  A plain name: letters, digits and underscores after a first letter, and none of the
  words above in any case.
\<close>

definition plainName :: "string \<Rightarrow> bool" where
  "plainName n =
     (n \<noteq> [] \<and> (isLower (hd n) \<or> isUpper (hd n))
        \<and> list_all (\<lambda>c. isAlnum c \<or> c = CHR ''_'') n
        \<and> ToLower n \<notin> set sql_words)"

text \<open>
  The words \<^verbatim>\<open>cast\<close> and \<^verbatim>\<open>raise\<close>: the engine accepts each as the name of a column,
  and in a WHERE clause reads it as the head of an expression of its own, so that
  \<^verbatim>\<open>cast=?\<close> is a syntax error.
\<close>

definition castWord :: "string \<Rightarrow> bool" where
  "castWord n = (ToLower n = ''cast'' \<or> ToLower n = ''raise'')"

fun columnIndex :: "string list \<Rightarrow> string \<Rightarrow> nat option" where
  "columnIndex [] k = None"
| "columnIndex (c # cs) k =
     (if ToLower c = ToLower k then Some 0 else map_option Suc (columnIndex cs k))"

fun firstDuplicate :: "string list \<Rightarrow> string list \<Rightarrow> string option" where
  "firstDuplicate seen [] = None"
| "firstDuplicate seen (x # xs) =
     (if ToLower x \<in> set (map ToLower seen) then Some x
      else firstDuplicate (seen @ [x]) xs)"

definition execCreateTable :: "memdb \<Rightarrow> string \<Rightarrow> (string + memdb) option" where
  "execCreateTable db body =
     (case stripSuffix '');'' body of
        None \<Rightarrow> None
      | Some defs \<Rightarrow>
          let names = map (stripSuffix '' text'') (Split defs '', '') in
          if \<not> list_all (\<lambda>n. case n of
                                None \<Rightarrow> False
                              | Some name \<Rightarrow> plainName name \<or> castWord name) names
             \<or> 2000 < length names
          then None
          else if csv_table db \<noteq> None then Some (Inl ''table csv already exists'')
          else
            (case firstDuplicate [] (map the names) of
               Some name \<Rightarrow> Some (Inl (''duplicate column name: '' @ name))
             | None \<Rightarrow> Some (Inr (db\<lparr>csv_table := Some (map the names, [])\<rparr>))))"

definition execInsert :: "memdb \<Rightarrow> string \<Rightarrow> string list \<Rightarrow> (string + memdb) option" where
  "execInsert db body args =
     (case stripSuffix '');'' body of
        None \<Rightarrow> None
      | Some marks \<Rightarrow>
          let ms = Split marks '','' in
          if \<not> list_all (\<lambda>m. m = ''?'') ms then None
          else
            (case csv_table db of
               None \<Rightarrow> None
             | Some (columns, rows) \<Rightarrow>
                 if length ms \<noteq> length columns \<or> length args \<noteq> length ms then None
                 else Some (Inr (db\<lparr>csv_table := Some (columns, rows @ [args])\<rparr>))))"

definition mem_Exec :: "memdb \<Rightarrow> string \<Rightarrow> string list \<Rightarrow> (string + memdb) option" where
  "mem_Exec db query args =
     (case stripPrefix ''create table csv ('' query of
        Some body \<Rightarrow> if args = [] then execCreateTable db body else None
      | None \<Rightarrow>
          (case stripPrefix ''insert into csv values ('' query of
             Some body \<Rightarrow> execInsert db body args
           | None \<Rightarrow> None))"

text \<open>
  The answer to a WHERE clause of the fragment: a syntax error when a key is \<^verbatim>\<open>cast\<close> or
  \<^verbatim>\<open>raise\<close>; otherwise the error of the first key that names no column; otherwise the
  rows that satisfy every clause \<open>key = argument\<close>.
\<close>

definition whereRows ::
  "string list \<Rightarrow> string list list \<Rightarrow> string list \<Rightarrow> string list \<Rightarrow> (string + cursor) option" where
  "whereRows columns rows keys args =
     (if \<not> list_all (\<lambda>k. plainName k \<or> castWord k) keys \<or> 1000 \<le> length keys
         \<or> length args \<noteq> length keys
      then None
      else if \<not> list_all (\<lambda>k. \<not> castWord k) keys
      then Some (Inl (''near '' @ [CHR 0x22] @ ''='' @ [CHR 0x22] @ '': syntax error''))
      else
        (case filter (\<lambda>k. columnIndex columns k = None) keys of
           k # _ \<Rightarrow> Some (Inl (''no such column: '' @ k))
         | [] \<Rightarrow>
             Some (Inr (columns,
                        map Inr (filter (\<lambda>row. list_all (\<lambda>(k, a). row ! the (columnIndex columns k) = a)
                                           (zip keys args)) rows),
                        None))))"

definition mem_Query :: "memdb \<Rightarrow> string \<Rightarrow> string list \<Rightarrow> (string + cursor) option" where
  "mem_Query db query args =
     (case stripPrefix ''SELECT * FROM csv'' query of
        None \<Rightarrow> None
      | Some rest \<Rightarrow>
          (case csv_table db of
             None \<Rightarrow> None
           | Some (columns, rows) \<Rightarrow>
               if rest = [] then
                 (if args = [] then Some (Inr (columns, map Inr rows, None)) else None)
               else
                 (case stripPrefix '' WHERE '' rest of
                    Some conds \<Rightarrow>
                      let clauses = map (stripSuffix ''=?'') (Split conds '' AND '') in
                      if None \<in> set clauses then None
                      else whereRows columns rows (map the clauses) args
                  | None \<Rightarrow>
                      (case stripPrefix '' '' rest of
                         Some alias \<Rightarrow>
                           if plainName alias \<and> args = []
                           then Some (Inr (columns, map Inr rows, None))
                           else None
                       | None \<Rightarrow> None))))"

text \<open>
  The fragment as a store. A store answers every statement: outside the fragment this
  one answers with the error \<open>unmodelled\<close>, which stands for no answer of the engine.
\<close>

definition unmodelled :: string where
  "unmodelled = ''no answer in the fragment''"

definition mem_store :: "memdb store" where
  "mem_store =
     \<lparr>Exec = (\<lambda>db query args.
               case mem_Exec db query args of Some answer \<Rightarrow> answer | None \<Rightarrow> Inl unmodelled),
      Query = (\<lambda>db query args.
               case mem_Query db query args of Some answer \<Rightarrow> answer | None \<Rightarrow> Inl unmodelled)\<rparr>"

text \<open>A store that accepts every statement and keeps the statements it was given.\<close>

definition log_store :: "(string \<times> string list) list store" where
  "log_store =
     \<lparr>Exec = (\<lambda>db query args. Inr (db @ [(query, args)])),
      Query = (\<lambda>db query args. Inr ([], [], None))\<rparr>"

section \<open>Statements in closed form\<close>

text \<open>The text of the CREATE TABLE statement for a header and a field count.\<close>

abbreviation createTableText :: "string list \<Rightarrow> int \<Rightarrow> string" where
  "createTableText hdr fc \<equiv>
     ''create table csv (''
       @ concat (map (\<lambda>j. columnName (hdr ! j)
                        @ (if int j = fc - 1 then '' text);'' else '' text, ''))
                   [0..<nat fc])"

text \<open>The text of the INSERT statement for a field count.\<close>

abbreviation insertText :: "int \<Rightarrow> string" where
  "insertText fc \<equiv>
     ''insert into csv values (''
       @ concat (map (\<lambda>j. if int j = fc - 1 then ''?);'' else ''?,'') [0..<nat fc])"


text \<open>The table of the examples: the columns \<^verbatim>\<open>a\<close> and \<^verbatim>\<open>b\<close>, two rows.\<close>

definition example_db :: memdb where
  "example_db =
     \<lparr>csv_table = Some ([''a'', ''b''], [[''1'', ''x''], [''2'', ''y'']])\<rparr>"

section \<open>Properties of the column name\<close>

lemma ReplaceAllString_empty_filter:
  "ReplaceAllString s [] = filter isAlnum s"
proof (induction s "[] :: string" rule: ReplaceAllString.induct)
  case 1
  show ?case by simp
next
  case (2 c cs)
  show ?case
  proof (cases "isAlnum c")
    case True
    with 2 show ?thesis by simp
  next
    case False
    have "filter isAlnum (dropWhile (\<lambda>x. \<not> isAlnum x) cs) = filter isAlnum cs"
      by (induction cs) auto
    with False 2 show ?thesis by simp
  qed
qed

lemma ReplaceAllString_ascii:
  "\<forall>c \<in> set (ReplaceAllString s []). code c < 128"
  by (auto simp: ReplaceAllString_empty_filter isAlnum_def isLower_def isUpper_def isDigit_def)

lemma code_toLowerByte:
  "code (toLowerByte c) = (if isUpper c then code c + 32 else code c)"
  by (simp add: toLowerByte_def code_def isUpper_def)

lemma isLowerAlnum_toLowerByte:
  "isAlnum c \<Longrightarrow> isLowerAlnum (toLowerByte c)"
  by (auto simp: isAlnum_def isLowerAlnum_def isLower_def isDigit_def code_toLowerByte
      isUpper_def)

lemma toLowerByte_fixed:
  "isLowerAlnum c \<Longrightarrow> toLowerByte c = c"
  by (auto simp: toLowerByte_def isLowerAlnum_def isLower_def isDigit_def isUpper_def)

lemma isLowerAlnum_isAlnum:
  "isLowerAlnum c \<Longrightarrow> isAlnum c"
  by (auto simp: isLowerAlnum_def isAlnum_def)

lemma columnName_eq:
  "columnName h = map toLowerByte (filter isAlnum h)"
  by (simp add: columnName_def ToLower_def ReplaceAllString_empty_filter)

lemma columnName_chars:
  "c \<in> set (columnName h) \<Longrightarrow> isLowerAlnum c"
  by (auto simp: columnName_eq isLowerAlnum_toLowerByte)

lemma columnName_fixed:
  "(\<And>c. c \<in> set s \<Longrightarrow> isLowerAlnum c) \<Longrightarrow> columnName s = s"
  by (induction s) (auto simp: columnName_eq isLowerAlnum_isAlnum toLowerByte_fixed)

text \<open>
  C7. A header token with at least one ASCII letter or digit: its column name is the
  token without the characters outside \<^verbatim>\<open>[A-Za-z0-9]\<close>, the rest in lower case; it is not
  empty, holds lower-case letters and digits only, and computing the column name of a
  column name changes nothing.
\<close>

theorem columnName_sanitizes:
  assumes "\<exists>c \<in> set H. isAlnum c"
  shows "columnName H = map toLowerByte (filter isAlnum H)
    \<and> (\<forall>c \<in> set (columnName H). isLowerAlnum c)
    \<and> columnName H \<noteq> []
    \<and> columnName (columnName H) = columnName H"
proof -
  have "filter isAlnum H \<noteq> []"
    using assms by (simp add: filter_empty_conv)
  then have "columnName H \<noteq> []"
    by (simp add: columnName_eq)
  moreover have "columnName (columnName H) = columnName H"
    by (rule columnName_fixed) (rule columnName_chars)
  ultimately show ?thesis
    by (auto simp: columnName_eq isLowerAlnum_toLowerByte)
qed

theorem columnName_sanitizes_witness:
  "(\<exists>c \<in> set ''First Name!''. isAlnum c)
    \<and> columnName ''First Name!'' = ''firstname''
    \<and> columnName (columnName ''First Name!'') = ''firstname''"
proof -
  have h: "\<exists>c \<in> set ''First Name!''. isAlnum c"
    by (simp add: isAlnum_def isLower_def isUpper_def isDigit_def code_def)
  have e: "columnName ''First Name!'' = ''firstname''"
    by code_simp
  from columnName_sanitizes [OF h]
  have "columnName (columnName ''First Name!'') = columnName ''First Name!''"
    by (elim conjE)
  with h e show ?thesis
    by (simp only: simp_thms)
qed

section \<open>Evaluation\<close>

declare createTableLoop.simps [simp del]
declare insertLoop.simps [simp del]
declare importLoop.simps [simp del]
declare Split.simps [simp del]
declare Replace.simps [simp del]
declare explode_runes.simps [simp del]

lemma columnName_examples:
  "columnName ''a'' = ''a''"
  "columnName ''b'' = ''b''"
  "columnName ''A'' = ''a''"
  "columnName ''Cast'' = ''cast''"
  by code_simp+

lemmas char_rules = isAlnum_def isUpper_def isLower_def isDigit_def code_def toLowerByte_def
  ToLower_def

lemmas reader_rules = readHeader_def Read_def validDelim_def ValidRune_def RuneError_def
  resolveFieldCount_def

lemmas loop_rules = createTableQuery_def createTableLoop.simps insertQuery_def
  insertLoop.simps importLoop.simps

lemmas engine_rules = mem_Exec_def mem_Query_def stripPrefix_def stripSuffix_def
  suffix_to_prefix execCreateTable_def execInsert_def whereRows_def
  Split.simps plainName_def castWord_def sql_words_def empty_db_def mem_store_def

lemmas handler_rules = handleRequest_def buildQuery_def Scan_def convertRow_def
  convertValue_def Replace.simps IndentedJSON_def encodable_def

lemmas number_rules = ParseFloat_decimal_def readSign_def digitsValue_def scale10_def
  exponentValue_def special_def ParseFloat_fragment_def

section \<open>The loops of processCSV in closed form\<close>

lemma createTableLoop_ok:
  "nat fc \<le> length hdr \<Longrightarrow>
   createTableLoop hdr fc i query =
     Inr (query @ concat (map (\<lambda>j. columnName (hdr ! j)
            @ (if int j = fc - 1 then '' text);'' else '' text, '')) [i..<nat fc]))"
proof (induction hdr fc i query rule: createTableLoop.induct)
  case (1 hdr fc i query)
  show ?case
  proof (cases "int i < fc")
    case True
    then have lt: "i < nat fc" by simp
    with "1.prems" have "i < length hdr" by simp
    with True "1.IH" "1.prems" lt show ?thesis
      by (subst createTableLoop.simps) (simp add: upt_conv_Cons)
  next
    case False
    then have "nat fc \<le> i" by simp
    with False show ?thesis
      by (subst createTableLoop.simps) simp
  qed
qed

lemma createTableLoop_panic:
  "int (length hdr) < fc \<Longrightarrow> i \<le> length hdr \<Longrightarrow>
   createTableLoop hdr fc i query = Inl (IndexOutOfRange (length hdr) (length hdr))"
proof (induction hdr fc i query rule: createTableLoop.induct)
  case (1 hdr fc i query)
  show ?case
  proof (cases "i < length hdr")
    case True
    with "1.prems" have "int i < fc" by simp
    with True "1.IH" "1.prems" show ?thesis
      by (subst createTableLoop.simps) simp
  next
    case False
    with "1.prems" have "i = length hdr" by simp
    with "1.prems" show ?thesis
      by (subst createTableLoop.simps) simp
  qed
qed

lemma insertLoop_ok:
  "nat fc \<le> length line \<Longrightarrow>
   insertLoop line fc i query args =
     Inr (query @ concat (map (\<lambda>j. if int j = fc - 1 then ''?);'' else ''?,'') [i..<nat fc]),
          args @ map (\<lambda>j. line ! j) [i..<nat fc])"
proof (induction line fc i query args rule: insertLoop.induct)
  case (1 line fc i query args)
  show ?case
  proof (cases "int i < fc")
    case True
    then have lt: "i < nat fc" by simp
    with "1.prems" have "i < length line" by simp
    with True "1.IH" "1.prems" lt show ?thesis
      by (subst insertLoop.simps) (simp add: upt_conv_Cons)
  next
    case False
    then have "nat fc \<le> i" by simp
    with False show ?thesis
      by (subst insertLoop.simps) simp
  qed
qed

lemma insertLoop_panic:
  "int (length line) < fc \<Longrightarrow> i \<le> length line \<Longrightarrow>
   insertLoop line fc i query args = Inl (IndexOutOfRange (length line) (length line))"
proof (induction line fc i query args rule: insertLoop.induct)
  case (1 line fc i query args)
  show ?case
  proof (cases "i < length line")
    case True
    with "1.prems" have "int i < fc" by simp
    with True "1.IH" "1.prems" show ?thesis
      by (subst insertLoop.simps) simp
  next
    case False
    with "1.prems" have "i = length line" by simp
    with "1.prems" show ?thesis
      by (subst insertLoop.simps) simp
  qed
qed

lemma map_nth_take:
  "n \<le> length xs \<Longrightarrow> map (\<lambda>j. xs ! j) [0..<n] = take n xs"
  by (induction n) (simp_all add: take_Suc_conv_app_nth)

lemma insertQuery_eq:
  "insertQuery line fc =
     (if int (length line) < fc then Inl (IndexOutOfRange (length line) (length line))
      else Inr (insertText fc, take (nat fc) line))"
proof (cases "int (length line) < fc")
  case True
  then show ?thesis
    by (simp add: insertQuery_def insertLoop_panic)
next
  case False
  then have "nat fc \<le> length line" by simp
  with False show ?thesis
    by (simp add: insertQuery_def insertLoop_ok map_nth_take)
qed

lemma createTableQuery_eq:
  "createTableQuery hdr fc =
     (if int (length hdr) < fc then Inl (IndexOutOfRange (length hdr) (length hdr))
      else Inr (createTableText hdr fc))"
proof (cases "int (length hdr) < fc")
  case True
  then show ?thesis
    by (simp add: createTableQuery_def createTableLoop_panic)
next
  case False
  then have "nat fc \<le> length hdr" by simp
  with False show ?thesis
    by (simp add: createTableQuery_def createTableLoop_ok)
qed

lemma readHeader_fieldCount:
  "readHeader cfg reader = Inr (cfg1, reader') \<Longrightarrow> csvFieldCount cfg1 = csvFieldCount cfg"
  by (auto simp: readHeader_def split: if_splits prod.splits sum.splits)

text \<open>
  C10. Once the header is resolved, the CREATE TABLE loop reads the header at every index
  below the field count without a check. When the configured field count exceeds the
  number of header tokens, processCSV ends in the panic of an index out of range, at the
  first index past the header, whatever the store; otherwise the loop builds its
  statement.
\<close>

theorem createTable_header_out_of_range:
  assumes "readHeader cfg \<lparr>Comma = csvDelimiter cfg, FieldsPerRecord = 0, pending = records\<rparr>
             = Inr (cfg1, reader)"
  shows "if int (length (csvHeader cfg1)) < csvFieldCount cfg
         then processCSV S db cfg (Some records)
                = Inl (IndexOutOfRange (length (csvHeader cfg1)) (length (csvHeader cfg1)))
         else createTableQuery (csvHeader (resolveFieldCount cfg1))
                (csvFieldCount (resolveFieldCount cfg1))
                = Inr (createTableText (csvHeader (resolveFieldCount cfg1))
                         (csvFieldCount (resolveFieldCount cfg1)))"
proof (cases "int (length (csvHeader cfg1)) < csvFieldCount cfg")
  case True
  from assms have fc: "csvFieldCount cfg1 = csvFieldCount cfg"
    by (rule readHeader_fieldCount)
  with True have "csvFieldCount cfg1 \<noteq> 0" by simp
  then have same: "resolveFieldCount cfg1 = cfg1"
    by (simp add: resolveFieldCount_def)
  from True fc have "createTableQuery (csvHeader cfg1) (csvFieldCount cfg1)
      = Inl (IndexOutOfRange (length (csvHeader cfg1)) (length (csvHeader cfg1)))"
    by (simp add: createTableQuery_eq)
  with assms same True show ?thesis
    by (simp add: processCSV_def)
next
  case False
  from assms have fc: "csvFieldCount cfg1 = csvFieldCount cfg"
    by (rule readHeader_fieldCount)
  with False have "\<not> int (length (csvHeader (resolveFieldCount cfg1)))
      < csvFieldCount (resolveFieldCount cfg1)"
    by (simp add: resolveFieldCount_def)
  with False show ?thesis
    by (simp add: createTableQuery_eq)
qed

text \<open>
  A file without a header line, no custom header and a field count of 3: the panic is at
  index 0. A header of two tokens with the field count detected: the statement is built.
\<close>

theorem createTable_header_out_of_range_witness:
  "processCSV log_store []
     \<lparr>csvFile = ''data.csv'', csvDelimiter = 44, csvFieldCount = 3, csvHasHeader = False,
      csvHeader = [], csvIndicies = []\<rparr>
     (Some [Inr [''1'', ''2'', ''3'']])
     = Inl (IndexOutOfRange 0 0)
   \<and> createTableQuery
       (csvHeader (resolveFieldCount
          \<lparr>csvFile = ''data.csv'', csvDelimiter = 44, csvFieldCount = 0, csvHasHeader = True,
           csvHeader = [''a'', ''b''], csvIndicies = []\<rparr>))
       (csvFieldCount (resolveFieldCount
          \<lparr>csvFile = ''data.csv'', csvDelimiter = 44, csvFieldCount = 0, csvHasHeader = True,
           csvHeader = [''a'', ''b''], csvIndicies = []\<rparr>))
     = Inr ''create table csv (a text, b text);''"
proof -
  let ?c1 = "\<lparr>csvFile = ''data.csv'', csvDelimiter = 44, csvFieldCount = 3,
    csvHasHeader = False, csvHeader = [], csvIndicies = []\<rparr>"
  let ?r1 = "\<lparr>Comma = csvDelimiter ?c1, FieldsPerRecord = 0,
    pending = [Inr [''1'', ''2'', ''3'']]\<rparr>"
  let ?c2 = "\<lparr>csvFile = ''data.csv'', csvDelimiter = 44, csvFieldCount = 0,
    csvHasHeader = True, csvHeader = [], csvIndicies = []\<rparr>"
  let ?r2 = "\<lparr>Comma = csvDelimiter ?c2, FieldsPerRecord = 0,
    pending = [Inr [''a'', ''b'']]\<rparr>"
  have h1: "readHeader ?c1 ?r1 = Inr (?c1, ?r1)"
    by (simp add: reader_rules)
  have h2: "readHeader ?c2 ?r2
      = Inr (?c2\<lparr>csvHeader := [''a'', ''b'']\<rparr>, \<lparr>Comma = 44, FieldsPerRecord = 2, pending = []\<rparr>)"
    by (simp add: reader_rules)
  have u: "[0..<2] = [0, Suc 0]"
    by (simp add: upt_rec)
  from createTable_header_out_of_range [OF h1, of log_store "[]"]
       createTable_header_out_of_range [OF h2] u
  show ?thesis
    by (simp add: resolveFieldCount_def columnName_examples)
qed

section \<open>The import of one row\<close>

text \<open>
  C4, as the code has it. A row reaches the loop body only when the reader returns it:
  its number of cells is the number the first record of the file had (the reader keeps
  that number in \<open>FieldsPerRecord\<close>), otherwise \<^verbatim>\<open>Read\<close> returns \<^verbatim>\<open>ErrFieldCount\<close> and
  the import ends there, whatever the length of the row. Of a row that is returned, the
  first \<open>fc\<close> cells are the arguments of the INSERT and the cells after them are
  ignored; a row with fewer than \<open>fc\<close> cells ends the import in the panic of an index
  out of range, nothing being padded.
\<close>

theorem importLoop_row:
  assumes "validDelim (Comma reader)" and "pending reader = Inr line # rest"
  shows "importLoop S fc reader db rows =
     (if 0 < FieldsPerRecord reader \<and> FieldsPerRecord reader \<noteq> int (length line)
      then Inl (ReadFailed ErrFieldCount)
      else if int (length line) < fc
      then Inl (IndexOutOfRange (length line) (length line))
      else (case Exec S db (insertText fc) (take (nat fc) line) of
              Inl err \<Rightarrow> Inl (CouldNotImport err (insertText fc))
            | Inr db' \<Rightarrow>
                importLoop S fc
                  (reader\<lparr>pending := rest,
                          FieldsPerRecord :=
                            (if FieldsPerRecord reader = 0 then int (length line)
                             else FieldsPerRecord reader)\<rparr>)
                  db' (Suc rows)))"
proof (cases "0 < FieldsPerRecord reader \<and> FieldsPerRecord reader \<noteq> int (length line)")
  case True
  with assms show ?thesis
    by (subst importLoop.simps) (simp add: Read_def)
next
  case False
  show ?thesis
  proof (cases "FieldsPerRecord reader = 0")
    case True
    with assms show ?thesis
      by (subst importLoop.simps) (simp add: Read_def insertQuery_eq split: sum.splits)
  next
    case nonzero: False
    have "reader\<lparr>pending := rest, FieldsPerRecord := FieldsPerRecord reader\<rparr>
        = reader\<lparr>pending := rest\<rparr>"
      by simp
    with nonzero False assms show ?thesis
      by (subst importLoop.simps) (simp add: Read_def insertQuery_eq split: sum.splits)
  qed
qed

text \<open>
  A row of three cells under a field count of 2 and a row of two cells under a field count
  of 3, each in a file whose records all have that many cells.
\<close>

theorem importLoop_row_witness:
  "importLoop log_store 2
     \<lparr>Comma = 44, FieldsPerRecord = 3, pending = [Inr [''1'', ''2'', ''3'']]\<rparr> [] 0
     = Inr ([(''insert into csv values (?,?);'', [''1'', ''2''])], 1)
   \<and> importLoop log_store 3
     \<lparr>Comma = 44, FieldsPerRecord = 2, pending = [Inr [''1'', ''2'']]\<rparr> [] 0
     = Inl (IndexOutOfRange 2 2)"
proof -
  have v: "validDelim (Comma \<lparr>Comma = 44, FieldsPerRecord = 3,
      pending = [Inr [''1'', ''2'', ''3'']]\<rparr>)"
    by (simp add: validDelim_def ValidRune_def RuneError_def)
  have v': "validDelim (Comma \<lparr>Comma = 44, FieldsPerRecord = 2,
      pending = [Inr [''1'', ''2'']]\<rparr>)"
    by (simp add: validDelim_def ValidRune_def RuneError_def)
  have u: "[0..<2] = [0, Suc 0]"
    by (simp add: upt_rec)
  have fin: "\<And>db n. importLoop log_store 2 \<lparr>Comma = 44, FieldsPerRecord = 3, pending = []\<rparr>
      db n = Inr (db, n)"
    by (subst importLoop.simps) (simp add: reader_rules)
  from importLoop_row [OF v, of "[''1'', ''2'', ''3'']" "[]" log_store 2 "[]" 0]
       importLoop_row [OF v', of "[''1'', ''2'']" "[]" log_store 3 "[]" 0] u fin
  show ?thesis
    by (simp add: log_store_def)
qed

text \<open>
  A header of two columns and a data row of three cells: the row is not cut to its first
  two cells, the import fails.
\<close>

theorem import_long_row_counterexample:
  "processCSV mem_store empty_db
     \<lparr>csvFile = ''data.csv'', csvDelimiter = 44, csvFieldCount = 0, csvHasHeader = True,
      csvHeader = [], csvIndicies = []\<rparr>
     (Some [Inr [''a'', ''b''], Inr [''1'', ''2'', ''3'']])
     = Inl (ReadFailed ErrFieldCount)"
  by (simp add: processCSV_def reader_rules loop_rules engine_rules char_rules
      columnName_examples)

section \<open>The delimiter\<close>

text \<open>
  C3, at the delimiter string \<^verbatim>\<open>ab\<close>: only the first rune is decoded, its width is
  dropped, and the configuration is accepted with the delimiter \<^verbatim>\<open>a\<close>. The empty
  string is refused.
\<close>

theorem parseEnvironment_two_character_delimiter:
  "parseEnvironment
     \<lparr>flag_file = ''data.csv'', flag_delimiter = ''ab'', flag_field_count = 0,
      flag_has_header = True, flag_header = [], flag_indicies = []\<rparr>
     = Inr \<lparr>csvFile = ''data.csv'', csvDelimiter = 97, csvFieldCount = 0,
            csvHasHeader = True, csvHeader = [], csvIndicies = []\<rparr>
   \<and> parseEnvironment
     \<lparr>flag_file = ''data.csv'', flag_delimiter = [], flag_field_count = 0,
      flag_has_header = True, flag_header = [], flag_indicies = []\<rparr>
     = Inl (InvalidDelimiter [])"
  by (simp add: parseEnvironment_def code_def leadSize_def RuneError_def)

section \<open>Splitting what was joined\<close>

lemma cutAt_None:
  "sep \<noteq> [] \<Longrightarrow> hd sep \<notin> set s \<Longrightarrow> cutAt sep s = None"
proof (induction s)
  case Nil
  then show ?case by simp
next
  case (Cons c cs)
  from Cons.prems have "\<not> prefix sep (c # cs)"
    by (cases sep) auto
  with Cons show ?case by simp
qed

lemma cutAt_append:
  "sep \<noteq> [] \<Longrightarrow> hd sep \<notin> set a \<Longrightarrow> cutAt sep (a @ sep @ b) = Some (a, b)"
proof (induction a)
  case Nil
  then show ?case by (cases sep) simp_all
next
  case (Cons c cs)
  from Cons.prems have "\<not> prefix sep ((c # cs) @ sep @ b)"
    by (cases sep) auto
  with Cons show ?case by simp
qed

lemma Split_Join:
  "sep \<noteq> [] \<Longrightarrow> xs \<noteq> [] \<Longrightarrow> \<forall>x \<in> set xs. hd sep \<notin> set x \<Longrightarrow> Split (Join xs sep) sep = xs"
proof (induction xs sep rule: Join.induct)
  case (1 sep)
  then show ?case by simp
next
  case (2 x sep)
  then show ?case
    by (subst Split.simps) (simp add: cutAt_None)
next
  case (3 x y ys sep)
  from "3.prems" have "cutAt sep (x @ sep @ Join (y # ys) sep) = Some (x, Join (y # ys) sep)"
    by (simp add: cutAt_append)
  with 3 show ?case
    by (subst Split.simps) simp
qed

section \<open>The query of a request in closed form\<close>





section \<open>A key with two values\<close>

lemma stripSuffix_append:
  "stripSuffix p (k @ p) = Some k"
  by (simp add: stripSuffix_def suffix_def)

lemma stripPrefix_append:
  "stripPrefix p (p @ s) = Some s"
  by (simp add: stripPrefix_def)







section \<open>A request without parameters\<close>

text \<open>
  C1, at the request without parameters: the five characters cut from the end of the
  query are \<^verbatim>\<open>HERE \<close> and a blank, the text left is a SELECT of the whole table under
  the alias \<^verbatim>\<open>W\<close>, and the response is 200 with every row.
\<close>

theorem handleRequest_no_parameters:
  "buildQuery [] = (''SELECT * FROM csv W'', [])
   \<and> handleRequest mem_store ParseFloat_decimal example_db []
     = Response 200
         (Records [[(''a'', JNumber (Finite 1)), (''b'', JString ''x'')],
                   [(''a'', JNumber (Finite 2)), (''b'', JString ''y'')]])"
  by (simp add: handler_rules engine_rules number_rules char_rules upt_rec example_db_def)

section \<open>Numbers in the response\<close>

lemma Replace_comma_Cons:
  "Replace (c # cs) '','' [] =
     (if c = CHR '','' then Replace cs '','' [] else c # Replace cs '','' [])"
proof -
  have A: "Replace (c # cs) '','' [] =
      (case cutAt '','' (c # cs) of None \<Rightarrow> c # cs | Some (a, b) \<Rightarrow> a @ Replace b '','' [])"
    by (subst Replace.simps) (auto split: option.splits)
  have B: "Replace cs '','' [] =
      (case cutAt '','' cs of None \<Rightarrow> cs | Some (a, b) \<Rightarrow> a @ Replace b '','' [])"
    by (subst Replace.simps) (auto split: option.splits)
  show ?thesis
  proof (cases "c = CHR '',''")
    case True
    with A show ?thesis by simp
  next
    case False
    with A have "Replace (c # cs) '','' [] =
        (case cutAt '','' cs of None \<Rightarrow> c # cs | Some (a, b) \<Rightarrow> c # a @ Replace b '','' [])"
      by (simp split: option.splits)
    also have "\<dots> = c # Replace cs '','' []"
      by (subst B) (simp split: option.splits)
    finally show ?thesis
      using False by simp
  qed
qed

lemma Replace_comma:
  "Replace v '','' [] = filter (\<lambda>c. c \<noteq> CHR '','') v"
proof (induction v)
  case Nil
  show ?case by (subst Replace.simps) simp
next
  case (Cons c cs)
  then show ?case by (simp add: Replace_comma_Cons)
qed

lemma update_fresh:
  "k \<notin> fst ` set al \<Longrightarrow> AList.update k v al = al @ [(k, v)]"
  by (induction al) auto

lemma convertRow_prefix:
  assumes "distinct columns" and "length vals = length columns"
  shows "n \<le> length columns \<Longrightarrow>
     fold (\<lambda>i m. AList.update (columns ! i) (convertValue parseFloat (vals ! i)) m) [0..<n] []
       = zip (take n columns) (map (convertValue parseFloat) (take n vals))"
proof (induction n)
  case 0
  show ?case by simp
next
  case (Suc n)
  then have n: "n < length columns" by simp
  with assms(1) have "columns ! n \<notin> set (take n columns)"
    by (auto simp: in_set_conv_nth distinct_conv_nth)
  then have fresh: "columns ! n \<notin>
      fst ` set (zip (take n columns) (map (convertValue parseFloat) (take n vals)))"
    by (auto dest: set_zip_leftD)
  from n assms(2) have "zip (take (Suc n) columns) (map (convertValue parseFloat) (take (Suc n) vals))
      = zip (take n columns) (map (convertValue parseFloat) (take n vals))
          @ [(columns ! n, convertValue parseFloat (vals ! n))]"
    by (simp add: take_Suc_conv_app_nth)
  with Suc.IH n fresh show ?case
    by (simp add: update_fresh)
qed

lemma convertRow_distinct:
  "distinct columns \<Longrightarrow> length vals = length columns \<Longrightarrow>
   convertRow parseFloat columns vals = zip columns (map (convertValue parseFloat) vals)"
  using convertRow_prefix [of columns vals "length columns" parseFloat]
  by (simp add: convertRow_def)

text \<open>
  C6. The value of a cell in the response: the commas are taken out and the rest is given
  to the number parser; the parsed number when it succeeds, the cell itself, commas
  included, when it fails. With the decimal numbers of ParseFloat, \<^verbatim>\<open>1,234\<close> is the number
  1234 and \<^verbatim>\<open>Smith, Jr.\<close> stays the string it was. The record of a row, its columns
  having different names, holds this value of each cell under the name of its column.
\<close>

theorem convertValue_number_or_original:
  "convertValue parseFloat v =
     (case parseFloat (filter (\<lambda>c. c \<noteq> CHR '','') v) of
        Some number \<Rightarrow> JNumber number
      | None \<Rightarrow> JString v)
   \<and> convertValue ParseFloat_decimal ''1,234'' = JNumber (Finite 1234)
   \<and> convertValue ParseFloat_decimal ''Smith, Jr.'' = JString ''Smith, Jr.''
   \<and> (distinct columns \<and> length vals = length columns \<longrightarrow>
        convertRow parseFloat columns vals = zip columns (map (convertValue parseFloat) vals))"
  by (simp add: convertValue_def Replace_comma number_rules char_rules convertRow_distinct)

theorem convertValue_number_or_original_witness:
  "convertRow ParseFloat_decimal [''name'', ''total''] [''Smith, Jr.'', ''1,234'']
     = [(''name'', JString ''Smith, Jr.''), (''total'', JNumber (Finite 1234))]"
proof -
  have d: "distinct [''name'', ''total''] \<and> length [''Smith, Jr.'', ''1,234''] = length [''name'', ''total'']"
    by simp
  from convertValue_number_or_original
    [of ParseFloat_decimal "[]" "[''name'', ''total'']" "[''Smith, Jr.'', ''1,234'']"] d
  show ?thesis
    by simp
qed

section \<open>Table creation\<close>

lemma processCSV_after_header:
  assumes "readHeader cfg \<lparr>Comma = csvDelimiter cfg, FieldsPerRecord = 0, pending = records\<rparr>
             = Inr (cfg1, reader)"
    and "\<not> int (length (csvHeader (resolveFieldCount cfg1)))
             < csvFieldCount (resolveFieldCount cfg1)"
  shows "processCSV S db cfg (Some records) =
     (case Exec S db (createTableText (csvHeader (resolveFieldCount cfg1))
                        (csvFieldCount (resolveFieldCount cfg1))) [] of
        Inl err \<Rightarrow> Inl (CouldNotCreateTable err)
      | Inr db1 \<Rightarrow>
          (case createIndices S db1 (csvIndicies (resolveFieldCount cfg1)) of
             Inl f \<Rightarrow> Inl f
           | Inr db2 \<Rightarrow>
               (case importLoop S (csvFieldCount (resolveFieldCount cfg1)) reader db2 0 of
                  Inl f \<Rightarrow> Inl f
                | Inr (db3, rows) \<Rightarrow> Inr (resolveFieldCount cfg1, db3, rows))))"
  using assms by (simp add: processCSV_def createTableQuery_eq Let_def)

lemma createTableText_Join:
  "hdr \<noteq> [] \<Longrightarrow>
   concat (map (\<lambda>j. columnName (hdr ! j)
                  @ (if int j = int (length hdr) - 1 then '' text);'' else '' text, ''))
             [0..<length hdr])
     = Join (map (\<lambda>h. columnName h @ '' text'') hdr) '', '' @ '');''"
proof (induction hdr)
  case Nil
  then show ?case by simp
next
  case (Cons x rest)
  show ?case
  proof (cases rest)
    case Nil
    then show ?thesis by simp
  next
    case (Cons y ys)
    have "[0..<length (x # rest)] = 0 # map Suc [0..<length rest]"
      by (simp only: length_Cons upt_conv_Cons [OF zero_less_Suc] map_Suc_upt)
    moreover have "rest \<noteq> []"
      using Cons by simp
    ultimately show ?thesis
      using Cons.IH Cons by (simp add: comp_def del: upt_Suc)
  qed
qed

text \<open>
  The statement lists the column names of the first \<open>fc\<close> tokens of the header, in
  their order and with their repetitions, and no other token.
\<close>

lemma createTableText_take:
  assumes "0 < fc" and "nat fc \<le> length hdr"
  shows "createTableText hdr fc =
     ''create table csv (''
       @ Join (map (\<lambda>h. columnName h @ '' text'') (take (nat fc) hdr)) '', '' @ '');''"
proof -
  let ?t = "take (nat fc) hdr"
  from assms have len: "length ?t = nat fc" and ne: "?t \<noteq> []"
    by auto
  from assms(1) have fc: "int (nat fc) = fc"
    by simp
  have "map (\<lambda>j. columnName (hdr ! j) @ (if int j = fc - 1 then '' text);'' else '' text, ''))
          [0..<nat fc]
      = map (\<lambda>j. columnName (?t ! j)
                   @ (if int j = int (length ?t) - 1 then '' text);'' else '' text, ''))
          [0..<length ?t]"
    unfolding len fc by (rule map_cong) simp_all
  with createTableText_Join [OF ne] show ?thesis
    by simp
qed

text \<open>
  C2, as the code has it. processCSV does not compare the column names. Once the header
  is read, and the field count not above the number of its tokens, the CREATE TABLE
  statement that lists the sanitized names of the first \<open>fieldCount\<close> tokens, repeated
  names included, is executed against the store, and what follows is decided by the
  store's answer to it: the table creation fails, with the store's message, exactly when
  the store refuses the statement. Tokens after the first \<open>fieldCount\<close> are not in the
  statement.
\<close>

theorem createTable_left_to_store:
  assumes "readHeader cfg \<lparr>Comma = csvDelimiter cfg, FieldsPerRecord = 0, pending = records\<rparr>
             = Inr (cfg1, reader)"
    and "cfg2 = resolveFieldCount cfg1"
    and "\<not> int (length (csvHeader cfg2)) < csvFieldCount cfg2"
  shows "processCSV S db cfg (Some records) =
       (case Exec S db (createTableText (csvHeader cfg2) (csvFieldCount cfg2)) [] of
          Inl err \<Rightarrow> Inl (CouldNotCreateTable err)
        | Inr db1 \<Rightarrow>
            (case createIndices S db1 (csvIndicies cfg2) of
               Inl f \<Rightarrow> Inl f
             | Inr db2 \<Rightarrow>
                 (case importLoop S (csvFieldCount cfg2) reader db2 0 of
                    Inl f \<Rightarrow> Inl f
                  | Inr (db3, rows) \<Rightarrow> Inr (cfg2, db3, rows))))
     \<and> (0 < csvFieldCount cfg2 \<longrightarrow>
          createTableText (csvHeader cfg2) (csvFieldCount cfg2) =
            ''create table csv (''
              @ Join (map (\<lambda>h. columnName h @ '' text'')
                        (take (nat (csvFieldCount cfg2)) (csvHeader cfg2))) '', ''
              @ '');'')"
proof -
  have c: "\<not> int (length (csvHeader (resolveFieldCount cfg1)))
      < csvFieldCount (resolveFieldCount cfg1)"
    using assms(3) unfolding assms(2) .
  have run: "processCSV S db cfg (Some records) =
       (case Exec S db (createTableText (csvHeader cfg2) (csvFieldCount cfg2)) [] of
          Inl err \<Rightarrow> Inl (CouldNotCreateTable err)
        | Inr db1 \<Rightarrow>
            (case createIndices S db1 (csvIndicies cfg2) of
               Inl f \<Rightarrow> Inl f
             | Inr db2 \<Rightarrow>
                 (case importLoop S (csvFieldCount cfg2) reader db2 0 of
                    Inl f \<Rightarrow> Inl f
                  | Inr (db3, rows) \<Rightarrow> Inr (cfg2, db3, rows))))"
    unfolding assms(2) by (rule processCSV_after_header [OF assms(1) c])
  have stmt: "createTableText (csvHeader cfg2) (csvFieldCount cfg2) =
        ''create table csv (''
          @ Join (map (\<lambda>h. columnName h @ '' text'')
                    (take (nat (csvFieldCount cfg2)) (csvHeader cfg2))) '', ''
          @ '');''"
    if "0 < csvFieldCount cfg2"
  proof -
    from assms(3) have "nat (csvFieldCount cfg2) \<le> length (csvHeader cfg2)"
      by simp
    with that show ?thesis
      by (rule createTableText_take)
  qed
  from run stmt show ?thesis
    by blast
qed

text \<open>
  The header \<^verbatim>\<open>a,A\<close> against the embedded engine: the statement with the column
  \<^verbatim>\<open>a\<close> twice is what the engine is given, and the failure is the engine's.
\<close>

theorem createTable_left_to_store_witness:
  "processCSV mem_store empty_db
     \<lparr>csvFile = ''data.csv'', csvDelimiter = 44, csvFieldCount = 0, csvHasHeader = True,
      csvHeader = [], csvIndicies = []\<rparr>
     (Some [Inr [''a'', ''A''], Inr [''1'', ''2'']])
     = Inl (CouldNotCreateTable ''duplicate column name: a'')"
proof -
  let ?cfg = "\<lparr>csvFile = ''data.csv'', csvDelimiter = 44, csvFieldCount = 0,
    csvHasHeader = True, csvHeader = [], csvIndicies = []\<rparr>"
  let ?cfg1 = "?cfg\<lparr>csvHeader := [''a'', ''A'']\<rparr>"
  let ?cfg2 = "?cfg\<lparr>csvHeader := [''a'', ''A''], csvFieldCount := 2\<rparr>"
  let ?reader = "\<lparr>Comma = 44, FieldsPerRecord = 2, pending = [Inr [''1'', ''2'']]\<rparr>"
  have h: "readHeader ?cfg \<lparr>Comma = csvDelimiter ?cfg, FieldsPerRecord = 0,
      pending = [Inr [''a'', ''A''], Inr [''1'', ''2'']]\<rparr> = Inr (?cfg1, ?reader)"
    by (simp add: reader_rules)
  have r: "?cfg2 = resolveFieldCount ?cfg1"
    by (simp add: resolveFieldCount_def)
  have n: "\<not> int (length (csvHeader ?cfg2)) < csvFieldCount ?cfg2"
    by simp
  have e: "Exec mem_store empty_db ''create table csv (a text, a text);'' []
      = Inl ''duplicate column name: a''"
    by (simp add: engine_rules char_rules)
  from createTable_left_to_store [OF h r n, of mem_store empty_db]
  have run: "processCSV mem_store empty_db ?cfg (Some [Inr [''a'', ''A''], Inr [''1'', ''2'']]) =
       (case Exec mem_store empty_db (createTableText (csvHeader ?cfg2) (csvFieldCount ?cfg2)) [] of
          Inl err \<Rightarrow> Inl (CouldNotCreateTable err)
        | Inr db1 \<Rightarrow>
            (case createIndices mem_store db1 (csvIndicies ?cfg2) of
               Inl f \<Rightarrow> Inl f
             | Inr db2 \<Rightarrow>
                 (case importLoop mem_store (csvFieldCount ?cfg2) ?reader db2 0 of
                    Inl f \<Rightarrow> Inl f
                  | Inr (db3, rows) \<Rightarrow> Inr (?cfg2, db3, rows))))"
    and stmt: "0 < csvFieldCount ?cfg2 \<longrightarrow>
       createTableText (csvHeader ?cfg2) (csvFieldCount ?cfg2) =
         ''create table csv (''
           @ Join (map (\<lambda>h. columnName h @ '' text'')
                     (take (nat (csvFieldCount ?cfg2)) (csvHeader ?cfg2))) '', ''
           @ '');''"
    by blast+
  from stmt have "createTableText (csvHeader ?cfg2) (csvFieldCount ?cfg2)
      = ''create table csv (a text, a text);''"
    by (simp add: columnName_examples)
  with run e show ?thesis
    by simp
qed

text \<open>
  The header \<^verbatim>\<open>a,b,A\<close> with the field count 2, against the embedded engine: the
  first and the third token have the same column name, the statement lists \<^verbatim>\<open>a\<close> and
  \<^verbatim>\<open>b\<close> only, the table is created and the import succeeds. Nothing compares the names,
  and the table creation does not fail.
\<close>

theorem createTable_collision_counterexample:
  "columnName ''a'' = columnName ''A''
   \<and> processCSV mem_store empty_db
       \<lparr>csvFile = ''data.csv'', csvDelimiter = 44, csvFieldCount = 2, csvHasHeader = True,
        csvHeader = [], csvIndicies = []\<rparr>
       (Some [Inr [''a'', ''b'', ''A''], Inr [''1'', ''2'', ''3'']])
     = Inr (\<lparr>csvFile = ''data.csv'', csvDelimiter = 44, csvFieldCount = 2,
             csvHasHeader = True, csvHeader = [''a'', ''b'', ''A''], csvIndicies = []\<rparr>,
            \<lparr>csv_table = Some ([''a'', ''b''], [[''1'', ''2'']])\<rparr>,
            1)"
  by (simp add: processCSV_def reader_rules loop_rules engine_rules char_rules
      columnName_examples)

section \<open>The custom header\<close>




declare DecodeRuneInString.simps [simp del]




text \<open>
  Where there is no record to read, or the reader refuses the delimiter, the start-up
  ends there, with or without a custom header.
\<close>

lemma readHeader_no_record:
  assumes "csvHasHeader cfg"
  shows "readHeader cfg \<lparr>Comma = csvDelimiter cfg, FieldsPerRecord = 0, pending = []\<rparr>
       = Inl (CouldNotReadHeader (if validDelim (csvDelimiter cfg) then EOF else ErrInvalidDelim))"
    and "\<not> validDelim (csvDelimiter cfg) \<Longrightarrow>
         readHeader cfg \<lparr>Comma = csvDelimiter cfg, FieldsPerRecord = 0, pending = records\<rparr>
           = Inl (CouldNotReadHeader ErrInvalidDelim)"
    and "validDelim (csvDelimiter cfg) \<Longrightarrow>
         readHeader cfg \<lparr>Comma = csvDelimiter cfg, FieldsPerRecord = 0,
                         pending = Inl msg # rest\<rparr>
           = Inl (CouldNotReadHeader (ParseError msg))"
  using assms by (simp_all add: readHeader_def Read_def)



section \<open>Import, then query\<close>

lemma mem_Exec_create_ab:
  "mem_Exec empty_db ''create table csv (a text, b text);'' []
     = Some (Inr \<lparr>csv_table = Some ([''a'', ''b''], [])\<rparr>)"
  by (simp add: engine_rules char_rules)

lemma mem_Exec_insert_ab:
  "mem_Exec \<lparr>csv_table = Some ([''a'', ''b''], rs)\<rparr> ''insert into csv values (?,?);'' [x, y]
     = Some (Inr \<lparr>csv_table = Some ([''a'', ''b''], rs @ [[x, y]])\<rparr>)"
  by (simp add: engine_rules)

lemma insertText_2:
  "insertText 2 = ''insert into csv values (?,?);''"
  by (simp add: upt_rec)

lemma length_2_cases:
  "length r = 2 \<Longrightarrow> \<exists>x y. r = [x, y]"
  by (cases r; cases "tl r") auto

lemma importLoop_mem:
  assumes "validDelim c" and "\<forall>r \<in> set rows. length r = 2"
  shows "importLoop mem_store 2 \<lparr>Comma = c, FieldsPerRecord = 2, pending = map Inr rows\<rparr>
           \<lparr>csv_table = Some ([''a'', ''b''], rs)\<rparr> n
         = Inr (\<lparr>csv_table = Some ([''a'', ''b''], rs @ rows)\<rparr>, n + length rows)"
  using assms(2)
proof (induction rows arbitrary: rs n)
  case Nil
  from assms(1) show ?case
    by (subst importLoop.simps) (simp add: Read_def)
next
  case (Cons r rows)
  from Cons.prems obtain x y where r: "r = [x, y]"
    using length_2_cases [of r] by auto
  from Cons.prems have rest: "\<forall>r \<in> set rows. length r = 2"
    by simp
  have q: "insertQuery [x, y] 2 = Inr (''insert into csv values (?,?);'', [x, y])"
    using insertText_2 by (simp add: insertQuery_eq)
  have "importLoop mem_store 2 \<lparr>Comma = c, FieldsPerRecord = 2, pending = map Inr (r # rows)\<rparr>
          \<lparr>csv_table = Some ([''a'', ''b''], rs)\<rparr> n
      = importLoop mem_store 2 \<lparr>Comma = c, FieldsPerRecord = 2, pending = map Inr rows\<rparr>
          \<lparr>csv_table = Some ([''a'', ''b''], rs @ [[x, y]])\<rparr> (Suc n)"
    using assms(1)
    by (subst importLoop.simps) (simp add: Read_def r q mem_store_def mem_Exec_insert_ab)
  with Cons.IH [OF rest, of "rs @ [[x, y]]" "Suc n"] show ?case
    by (simp add: r)
qed

lemma rowsLoop_ok:
  "\<forall>r \<in> set rs. length r = length columns \<Longrightarrow>
   rowsLoop parseFloat columns (map Inr rs) data
     = Inr (data @ map (convertRow parseFloat columns) rs)"
  by (induction rs arbitrary: data) (simp_all add: Scan_def)

lemma mem_Query_a:
  "mem_Query \<lparr>csv_table = Some ([''a'', ''b''], rows)\<rparr> ''SELECT * FROM csv WHERE a=?'' [v]
     = Some (Inr ([''a'', ''b''], map Inr (filter (\<lambda>row. row ! 0 = v) rows), None))"
  by (simp add: engine_rules char_rules)

text \<open>
  A file with the header \<^verbatim>\<open>a,b\<close> and any number of rows of two cells, imported into the
  embedded engine with the field count 2, detected or configured: the import succeeds
  with every row counted, and the request \<^verbatim>\<open>?a=v\<close>, \<open>v\<close> the first cell of an imported
  row as it was in the file, selects the rows whose first cell is \<open>v\<close>, that row among
  them. The response is what the encoding makes of their records.
\<close>

lemma import_then_query:
  assumes "csvHasHeader cfg" and "csvHeader cfg = []"
    and "csvFieldCount cfg = 0 \<or> csvFieldCount cfg = 2"
    and "csvIndicies cfg = []" and "validDelim (csvDelimiter cfg)"
    and "\<forall>r \<in> set rows. length r = 2"
  shows "\<exists>cfg'.
     processCSV mem_store empty_db cfg (Some (Inr [''a'', ''b''] # map Inr rows))
       = Inr (cfg', \<lparr>csv_table = Some ([''a'', ''b''], rows)\<rparr>, length rows)
     \<and> (\<forall>r \<in> set rows.
          handleRequest mem_store parseFloat \<lparr>csv_table = Some ([''a'', ''b''], rows)\<rparr>
              [(''a'', [r ! 0])]
            = IndentedJSON (map (convertRow parseFloat [''a'', ''b''])
                              (filter (\<lambda>row. row ! 0 = r ! 0) rows))
          \<and> convertRow parseFloat [''a'', ''b''] r
              \<in> set (map (convertRow parseFloat [''a'', ''b''])
                       (filter (\<lambda>row. row ! 0 = r ! 0) rows)))"
proof -
  let ?cfg1 = "cfg\<lparr>csvHeader := [''a'', ''b'']\<rparr>"
  let ?reader = "\<lparr>Comma = csvDelimiter cfg, FieldsPerRecord = 2, pending = map Inr rows\<rparr>"
  let ?db = "\<lparr>csv_table = Some ([''a'', ''b''], rows)\<rparr>"
  have h: "readHeader cfg \<lparr>Comma = csvDelimiter cfg, FieldsPerRecord = 0,
      pending = Inr [''a'', ''b''] # map Inr rows\<rparr> = Inr (?cfg1, ?reader)"
    using assms(1,2,5) by (simp add: readHeader_def Read_def)
  have fc: "csvFieldCount (resolveFieldCount ?cfg1) = 2"
    and hd: "csvHeader (resolveFieldCount ?cfg1) = [''a'', ''b'']"
    and ix: "csvIndicies (resolveFieldCount ?cfg1) = []"
    using assms(3,4) by (auto simp: resolveFieldCount_def)
  have c: "\<not> int (length (csvHeader (resolveFieldCount ?cfg1)))
      < csvFieldCount (resolveFieldCount ?cfg1)"
    by (simp add: fc hd)
  have t: "createTableText [''a'', ''b''] 2 = ''create table csv (a text, b text);''"
    by (simp add: upt_rec columnName_examples)
  have i: "importLoop mem_store 2 ?reader \<lparr>csv_table = Some ([''a'', ''b''], [])\<rparr> 0
      = Inr (?db, length rows)"
    using importLoop_mem [OF assms(5,6), of "[]" 0] by simp
  have p: "processCSV mem_store empty_db cfg (Some (Inr [''a'', ''b''] # map Inr rows))
      = Inr (resolveFieldCount ?cfg1, ?db, length rows)"
    unfolding processCSV_after_header [OF h c] fc hd ix t
    by (simp add: mem_store_def mem_Exec_create_ab i [unfolded mem_store_def])
  have "handleRequest mem_store parseFloat ?db [(''a'', [r ! 0])]
      = IndentedJSON (map (convertRow parseFloat [''a'', ''b''])
          (filter (\<lambda>row. row ! 0 = r ! 0) rows))" for r
  proof -
    have b: "buildQuery [(''a'', [r ! 0])] = (''SELECT * FROM csv WHERE a=?'', [r ! 0])"
      by (simp add: buildQuery_def)
    have "\<forall>x \<in> set (filter (\<lambda>row. row ! 0 = r ! 0) rows). length x = length [''a'', ''b'']"
      using assms(6) by simp
    then have "rowsLoop parseFloat [''a'', ''b'']
        (map Inr (filter (\<lambda>row. row ! 0 = r ! 0) rows)) []
        = Inr ([] @ map (convertRow parseFloat [''a'', ''b''])
            (filter (\<lambda>row. row ! 0 = r ! 0) rows))"
      by (rule rowsLoop_ok)
    then show ?thesis
      by (simp add: handleRequest_def b mem_store_def mem_Query_a)
  qed
  with p show ?thesis
    by (intro exI [of _ "resolveFieldCount ?cfg1"]) simp
qed

text \<open>The rows \<^verbatim>\<open>1,5\<close>, \<^verbatim>\<open>x\<close> and \<^verbatim>\<open>2\<close>, \<^verbatim>\<open>y\<close>: the first is returned to \<^verbatim>\<open>?a=1,5\<close>.\<close>

lemma import_then_query_example:
  "\<exists>cfg'.
     processCSV mem_store empty_db
       \<lparr>csvFile = ''data.csv'', csvDelimiter = 44, csvFieldCount = 0, csvHasHeader = True,
        csvHeader = [], csvIndicies = []\<rparr>
       (Some [Inr [''a'', ''b''], Inr [''1,5'', ''x''], Inr [''2'', ''y'']])
       = Inr (cfg', \<lparr>csv_table = Some ([''a'', ''b''], [[''1,5'', ''x''], [''2'', ''y'']])\<rparr>, 2)
     \<and> handleRequest mem_store ParseFloat_fragment
         \<lparr>csv_table = Some ([''a'', ''b''], [[''1,5'', ''x''], [''2'', ''y'']])\<rparr>
         [(''a'', [''1,5''])]
         = Response 200 (Records [[(''a'', JNumber (Finite 15)), (''b'', JString ''x'')]])"
proof -
  let ?cfg = "\<lparr>csvFile = ''data.csv'', csvDelimiter = 44, csvFieldCount = 0,
    csvHasHeader = True, csvHeader = [], csvIndicies = []\<rparr>"
  let ?rows = "[[''1,5'', ''x''], [''2'', ''y'']]"
  let ?db = "\<lparr>csv_table = Some ([''a'', ''b''], ?rows)\<rparr>"
  have a: "csvHasHeader ?cfg" "csvHeader ?cfg = []"
    "csvFieldCount ?cfg = 0 \<or> csvFieldCount ?cfg = 2" "csvIndicies ?cfg = []"
    by simp_all
  have v: "validDelim (csvDelimiter ?cfg)"
    by (simp add: validDelim_def ValidRune_def RuneError_def)
  have l: "\<forall>r \<in> set ?rows. length r = 2"
    by simp
  from import_then_query [OF a v l, of ParseFloat_fragment]
  obtain cfg' where
    p: "processCSV mem_store empty_db ?cfg (Some (Inr [''a'', ''b''] # map Inr ?rows))
          = Inr (cfg', ?db, length ?rows)"
    and q: "\<forall>r \<in> set ?rows.
          handleRequest mem_store ParseFloat_fragment ?db [(''a'', [r ! 0])]
            = IndentedJSON (map (convertRow ParseFloat_fragment [''a'', ''b''])
                              (filter (\<lambda>row. row ! 0 = r ! 0) ?rows))
          \<and> convertRow ParseFloat_fragment [''a'', ''b''] r
              \<in> set (map (convertRow ParseFloat_fragment [''a'', ''b''])
                       (filter (\<lambda>row. row ! 0 = r ! 0) ?rows))"
    by blast
  have "convertRow ParseFloat_fragment [''a'', ''b''] [''1,5'', ''x'']
      = [(''a'', JNumber (Finite 15)), (''b'', JString ''x'')]"
    by (simp add: convertRow_def convertValue_def Replace_comma number_rules char_rules
        upt_rec)
  with q have "handleRequest mem_store ParseFloat_fragment ?db [(''a'', [''1,5''])]
      = Response 200 (Records [[(''a'', JNumber (Finite 15)), (''b'', JString ''x'')]])"
    by (simp add: IndentedJSON_def encodable_def)
  with p show ?thesis
    by auto
qed

lemma ParseFloat_fragment_NaN:
  "ParseFloat_fragment ''NaN'' = Some NaN"
proof -
  have "special ''NaN'' = Some NaN"
    by code_simp
  then show ?thesis
    by (simp add: ParseFloat_fragment_def)
qed

lemma ParseFloat_fragment_x:
  "ParseFloat_fragment ''x'' = None"
proof -
  have "special ''x'' = None"
    by code_simp
  then show ?thesis
    by (simp add: ParseFloat_fragment_def ParseFloat_decimal_def readSign_def
        digitsValue_def scale10_def exponentValue_def char_rules)
qed

text \<open>
  C9, where the code loses a row. The file \<^verbatim>\<open>a,b\<close>, \<^verbatim>\<open>NaN,x\<close> is imported with its one
  row. The cell \<^verbatim>\<open>NaN\<close> is read as a number by the conversion of the handler, the number
  that the JSON encoding refuses, and every selection that holds the row has its record:
  the request \<^verbatim>\<open>?a=NaN\<close> and the request \<^verbatim>\<open>?b=x\<close>, the two equality filters on a column
  with the row's own cell, end in the failure of the encoding, and no array is written.
\<close>

theorem round_trip_lost_on_nan:
  "processCSV mem_store empty_db
     \<lparr>csvFile = ''data.csv'', csvDelimiter = 44, csvFieldCount = 0, csvHasHeader = True,
      csvHeader = [], csvIndicies = []\<rparr>
     (Some [Inr [''a'', ''b''], Inr [''NaN'', ''x'']])
     = Inr (\<lparr>csvFile = ''data.csv'', csvDelimiter = 44, csvFieldCount = 2,
             csvHasHeader = True, csvHeader = [''a'', ''b''], csvIndicies = []\<rparr>,
            \<lparr>csv_table = Some ([''a'', ''b''], [[''NaN'', ''x'']])\<rparr>,
            1)
   \<and> convertValue ParseFloat_fragment ''NaN'' = JNumber NaN
   \<and> handleRequest mem_store ParseFloat_fragment
       \<lparr>csv_table = Some ([''a'', ''b''], [[''NaN'', ''x'']])\<rparr> [(''a'', [''NaN''])]
     = EncodingFailed
   \<and> handleRequest mem_store ParseFloat_fragment
       \<lparr>csv_table = Some ([''a'', ''b''], [[''NaN'', ''x'']])\<rparr> [(''b'', [''x''])]
     = EncodingFailed"
proof -
  have p: "processCSV mem_store empty_db
     \<lparr>csvFile = ''data.csv'', csvDelimiter = 44, csvFieldCount = 0, csvHasHeader = True,
      csvHeader = [], csvIndicies = []\<rparr>
     (Some [Inr [''a'', ''b''], Inr [''NaN'', ''x'']])
     = Inr (\<lparr>csvFile = ''data.csv'', csvDelimiter = 44, csvFieldCount = 2,
             csvHasHeader = True, csvHeader = [''a'', ''b''], csvIndicies = []\<rparr>,
            \<lparr>csv_table = Some ([''a'', ''b''], [[''NaN'', ''x'']])\<rparr>,
            1)"
    by (simp add: processCSV_def reader_rules loop_rules engine_rules char_rules
        columnName_examples)
  have n: "convertValue ParseFloat_fragment ''NaN'' = JNumber NaN"
    by (simp add: convertValue_def Replace_comma ParseFloat_fragment_NaN)
  have a: "handleRequest mem_store ParseFloat_fragment
       \<lparr>csv_table = Some ([''a'', ''b''], [[''NaN'', ''x'']])\<rparr> [(''a'', [''NaN''])]
     = EncodingFailed"
    by (simp add: handler_rules engine_rules char_rules Replace_comma upt_rec
        ParseFloat_fragment_NaN ParseFloat_fragment_x)
  have b: "handleRequest mem_store ParseFloat_fragment
       \<lparr>csv_table = Some ([''a'', ''b''], [[''NaN'', ''x'']])\<rparr> [(''b'', [''x''])]
     = EncodingFailed"
    by (simp add: handler_rules engine_rules char_rules Replace_comma upt_rec
        ParseFloat_fragment_NaN ParseFloat_fragment_x)
  from p n a b show ?thesis
    by (intro conjI)
qed

section \<open>Two general facts behind the examples\<close>

text \<open>
  Whatever follows a first ASCII character in the delimiter string, the configuration is
  accepted and the delimiter is that character.
\<close>

lemma parseEnvironment_ascii_led:
  assumes "flag_file fl \<noteq> []" and "flag_delimiter fl = c # rest" and "code c < 128"
  shows "\<exists>cfg. parseEnvironment fl = Inr cfg \<and> csvDelimiter cfg = code c"
proof -
  have "DecodeRuneInString (c # rest) = (code c, 1)"
    using assms(3) by (simp add: DecodeRuneInString.simps)
  with assms show ?thesis
    by (simp add: parseEnvironment_def RuneError_def Let_def)
qed

text \<open>
  Against the embedded engine, the request without parameters selects all the rows of
  the table, whatever the table, and the response is what the encoding makes of their
  records.
\<close>

lemma handleRequest_no_parameters_all_rows:
  assumes "csv_table db = Some (columns, rows)"
    and "\<forall>r \<in> set rows. length r = length columns"
  shows "handleRequest mem_store parseFloat db []
           = IndentedJSON (map (convertRow parseFloat columns) rows)"
proof -
  have b: "buildQuery [] = (''SELECT * FROM csv W'', [])"
    by (simp add: buildQuery_def)
  have "plainName ''W''"
    by (simp add: plainName_def sql_words_def char_rules)
  then have q: "mem_Query db ''SELECT * FROM csv W'' [] = Some (Inr (columns, map Inr rows, None))"
    using assms(1) by (simp add: mem_Query_def stripPrefix_def)
  from assms(2) have "rowsLoop parseFloat columns (map Inr rows) []
      = Inr ([] @ map (convertRow parseFloat columns) rows)"
    by (rule rowsLoop_ok)
  with b q show ?thesis
    by (simp add: handleRequest_def mem_store_def)
qed

end
